theory Spec2Isabelle
  imports Complex_Main "HOL-Library.Word"
begin

unbundle bit_operations_syntax

section \<open>Basic types of icbc.h\<close>

text \<open>
  The encoder computes on single-precision floats. They are modelled as \<^typ>\<open>real\<close>:
  every arithmetic operation is exact, there is no rounding, no overflow and no NaN, and a
  quotient is HOL's total division. The one place where the code computes on \<open>FLT_MAX\<close> on
  purpose, the padded lanes of the cluster fit, carries an explicit overflow and NaN model
  (type \<open>xfloat\<close> below). The integer side of the code (packed 5:6:5 endpoints, bit
  expansion, palettes, index words, the single colour tables) is modelled bit for bit on
  machine words.
\<close>

type_synonym Color16 = "16 word"
type_synonym Color32 = "32 word"

text \<open>Bit fields of \<open>Color16\<close>: \<open>b\<close> is bits 0-4, \<open>g\<close> bits 5-10, \<open>r\<close> bits 11-15.\<close>

definition c16_r :: "Color16 \<Rightarrow> nat" where
  "c16_r c = unat (drop_bit 11 c AND 31)"

definition c16_g :: "Color16 \<Rightarrow> nat" where
  "c16_g c = unat (drop_bit 5 c AND 63)"

definition c16_b :: "Color16 \<Rightarrow> nat" where
  "c16_b c = unat (c AND 31)"

text \<open>Assignment to a bit field keeps the low bits of the value and leaves the other fields.\<close>

definition c16_set_r :: "Color16 \<Rightarrow> int \<Rightarrow> Color16" where
  "c16_set_r c v = (c AND 0x07FF) OR push_bit 11 (word_of_int v AND 31)"

definition c16_set_g :: "Color16 \<Rightarrow> int \<Rightarrow> Color16" where
  "c16_set_g c v = (c AND 0xF81F) OR push_bit 5 (word_of_int v AND 63)"

definition c16_set_b :: "Color16 \<Rightarrow> int \<Rightarrow> Color16" where
  "c16_set_b c v = (c AND 0xFFE0) OR (word_of_int v AND 31)"

text \<open>Bytes of \<open>Color32\<close>: \<open>b\<close> is byte 0, \<open>g\<close> byte 1, \<open>r\<close> byte 2, \<open>a\<close> byte 3.\<close>

definition c32_r :: "Color32 \<Rightarrow> nat" where
  "c32_r c = unat (drop_bit 16 c AND 255)"

definition c32_g :: "Color32 \<Rightarrow> nat" where
  "c32_g c = unat (drop_bit 8 c AND 255)"

definition c32_b :: "Color32 \<Rightarrow> nat" where
  "c32_b c = unat (c AND 255)"

definition c32_a :: "Color32 \<Rightarrow> nat" where
  "c32_a c = unat (drop_bit 24 c AND 255)"

text \<open>A \<open>Color32\<close> from its four bytes; each value is truncated to 8 bits as a store to \<open>uint8\<close> does.\<close>

definition mk_color32 :: "int \<Rightarrow> int \<Rightarrow> int \<Rightarrow> int \<Rightarrow> Color32" where
  "mk_color32 r g b a =
     push_bit 24 (word_of_int a AND 255) OR push_bit 16 (word_of_int r AND 255)
       OR push_bit 8 (word_of_int g AND 255) OR (word_of_int b AND 255)"

record BlockDXT1 =
  col0 :: Color16
  col1 :: Color16
  indices :: "32 word"

record Vector3 =
  vx :: real
  vy :: real
  vz :: real

record Vector4 =
  xyz :: Vector3
  vw :: real

definition vec3 :: "real \<Rightarrow> real \<Rightarrow> real \<Rightarrow> Vector3" where
  "vec3 a b c = \<lparr>vx = a, vy = b, vz = c\<rparr>"

definition max_t :: "real \<Rightarrow> real \<Rightarrow> real" where
  "max_t a b = (if b < a then a else b)"

definition min_t :: "real \<Rightarrow> real \<Rightarrow> real" where
  "min_t a b = (if a < b then a else b)"

definition clamp :: "real \<Rightarrow> real \<Rightarrow> real \<Rightarrow> real" where
  "clamp v a b = min_t (max_t v a) b"

definition v3_scale :: "Vector3 \<Rightarrow> real \<Rightarrow> Vector3" where
  "v3_scale v s = vec3 (vx v * s) (vy v * s) (vz v * s)"

definition v3_mul :: "Vector3 \<Rightarrow> Vector3 \<Rightarrow> Vector3" where
  "v3_mul a b = vec3 (vx a * vx b) (vy a * vy b) (vz a * vz b)"

definition dot :: "Vector3 \<Rightarrow> Vector3 \<Rightarrow> real" where
  "dot a b = vx a * vx b + vy a * vy b + vz a * vz b"

definition v3_add :: "Vector3 \<Rightarrow> Vector3 \<Rightarrow> Vector3" where
  "v3_add a b = vec3 (vx a + vx b) (vy a + vy b) (vz a + vz b)"

definition v3_sub :: "Vector3 \<Rightarrow> Vector3 \<Rightarrow> Vector3" where
  "v3_sub a b = vec3 (vx a - vx b) (vy a - vy b) (vz a - vz b)"

definition v3_div :: "Vector3 \<Rightarrow> real \<Rightarrow> Vector3" where
  "v3_div v s = vec3 (vx v / s) (vy v / s) (vz v / s)"

definition saturate :: "real \<Rightarrow> real" where
  "saturate v = clamp v 0 1"

definition v3_saturate :: "Vector3 \<Rightarrow> Vector3" where
  "v3_saturate v = vec3 (saturate (vx v)) (saturate (vy v)) (saturate (vz v))"

definition v3_min :: "Vector3 \<Rightarrow> Vector3 \<Rightarrow> Vector3" where
  "v3_min a b = vec3 (min_t (vx a) (vx b)) (min_t (vy a) (vy b)) (min_t (vz a) (vz b))"

definition v3_max :: "Vector3 \<Rightarrow> Vector3 \<Rightarrow> Vector3" where
  "v3_max a b = vec3 (max_t (vx a) (vx b)) (max_t (vy a) (vy b)) (max_t (vz a) (vz b))"

definition scalar_to_vector3 :: "real \<Rightarrow> Vector3" where
  "scalar_to_vector3 f = vec3 f f f"

definition lengthSquared :: "Vector3 \<Rightarrow> real" where
  "lengthSquared v = dot v v"

definition equal_eps :: "real \<Rightarrow> real \<Rightarrow> real \<Rightarrow> bool" where
  "equal_eps a b epsilon = (\<bar>a - b\<bar> < epsilon)"

definition v3_equal :: "Vector3 \<Rightarrow> Vector3 \<Rightarrow> real \<Rightarrow> bool" where
  "v3_equal a b epsilon =
     (equal_eps (vx a) (vx b) epsilon \<and> equal_eps (vy a) (vy b) epsilon
       \<and> equal_eps (vz a) (vz b) epsilon)"

section \<open>Color conversion\<close>

definition midpoints5 :: "real list" where
  "midpoints5 =
    [0.015686, 0.047059, 0.078431, 0.111765, 0.145098, 0.176471, 0.207843, 0.241176,
     0.274510, 0.305882, 0.337255, 0.370588, 0.403922, 0.435294, 0.466667, 0.5,
     0.533333, 0.564706, 0.596078, 0.629412, 0.662745, 0.694118, 0.725490, 0.758824,
     0.792157, 0.823529, 0.854902, 0.888235, 0.921569, 0.952941, 0.984314, 1.0]"

definition midpoints6 :: "real list" where
  "midpoints6 =
    [0.007843, 0.023529, 0.039216, 0.054902, 0.070588, 0.086275, 0.101961, 0.117647,
     0.133333, 0.149020, 0.164706, 0.180392, 0.196078, 0.211765, 0.227451, 0.245098,
     0.262745, 0.278431, 0.294118, 0.309804, 0.325490, 0.341176, 0.356863, 0.372549,
     0.388235, 0.403922, 0.419608, 0.435294, 0.450980, 0.466667, 0.482353, 0.500000,
     0.517647, 0.533333, 0.549020, 0.564706, 0.580392, 0.596078, 0.611765, 0.627451,
     0.643137, 0.658824, 0.674510, 0.690196, 0.705882, 0.721569, 0.737255, 0.754902,
     0.772549, 0.788235, 0.803922, 0.819608, 0.835294, 0.850980, 0.866667, 0.882353,
     0.898039, 0.913725, 0.929412, 0.945098, 0.960784, 0.976471, 0.992157, 1.0]"

text \<open>
  \<open>quantize_channel\<close> is one channel of \<open>vector3_to_color16\<close>: truncate the clamped
  scaled value, then add one when the input exceeds the midpoint stored for the truncated
  grid point. The truncated value is at most \<open>scale\<close>, so the table read is in range.
\<close>

definition quantize_channel :: "real list \<Rightarrow> real \<Rightarrow> real \<Rightarrow> nat" where
  "quantize_channel midpoints scale v =
     (let q = nat \<lfloor>clamp (v * scale) 0 scale\<rfloor>
      in q + (if v > midpoints ! q then 1 else 0))"

definition vector3_to_color16 :: "Vector3 \<Rightarrow> Color16" where
  "vector3_to_color16 v =
     (let r = quantize_channel midpoints5 31 (vx v);
          g = quantize_channel midpoints6 63 (vy v);
          b = quantize_channel midpoints5 31 (vz v);
          u = (push_bit 11 (of_nat r) OR push_bit 5 (of_nat g) OR of_nat b) :: 32 word
      in ucast u)"

definition bitexpand_color16_to_color32 :: "Color16 \<Rightarrow> Color32" where
  "bitexpand_color16_to_color32 c16 =
     (let w = (ucast c16) :: 32 word;
          u0 = (push_bit 3 w AND 0xf8) OR (push_bit 5 w AND 0xfc00) OR (push_bit 8 w AND 0xf80000);
          u1 = u0 OR (drop_bit 5 u0 AND 0x070007);
          u2 = u1 OR (drop_bit 6 u1 AND 0x000300)
      in u2)"

definition color_to_vector3 :: "Color32 \<Rightarrow> Vector3" where
  "color_to_vector3 c = vec3 (real (c32_r c) / 255) (real (c32_g c) / 255) (real (c32_b c) / 255)"

definition vector3_to_color32 :: "Vector3 \<Rightarrow> Color32" where
  "vector3_to_color32 v =
     mk_color32 \<lfloor>saturate (vx v) * 255 + 1 / 2\<rfloor> \<lfloor>saturate (vy v) * 255 + 1 / 2\<rfloor>
       \<lfloor>saturate (vz v) * 255 + 1 / 2\<rfloor> 255"

section \<open>Palette evaluation\<close>

text \<open>A palette is the list of its four entries.\<close>

definition evaluate_palette4_d3d10 :: "Color32 \<Rightarrow> Color32 \<Rightarrow> Color32 list" where
  "evaluate_palette4_d3d10 p0 p1 =
     [p0, p1,
      mk_color32 (int ((2 * c32_r p0 + c32_r p1) div 3)) (int ((2 * c32_g p0 + c32_g p1) div 3))
        (int ((2 * c32_b p0 + c32_b p1) div 3)) 255,
      mk_color32 (int ((2 * c32_r p1 + c32_r p0) div 3)) (int ((2 * c32_g p1 + c32_g p0) div 3))
        (int ((2 * c32_b p1 + c32_b p0) div 3)) 255]"

definition evaluate_palette3_d3d10 :: "Color32 \<Rightarrow> Color32 \<Rightarrow> Color32 list" where
  "evaluate_palette3_d3d10 p0 p1 =
     [p0, p1,
      mk_color32 (int ((c32_r p0 + c32_r p1) div 2)) (int ((c32_g p0 + c32_g p1) div 2))
        (int ((c32_b p0 + c32_b p1) div 2)) 255,
      0]"

definition evaluate_palette_d3d10 :: "Color16 \<Rightarrow> Color16 \<Rightarrow> Color32 list" where
  "evaluate_palette_d3d10 c0 c1 =
     (let p0 = bitexpand_color16_to_color32 c0; p1 = bitexpand_color16_to_color32 c1
      in if c0 > c1 then evaluate_palette4_d3d10 p0 p1 else evaluate_palette3_d3d10 p0 p1)"

definition evaluate_palette4_amd :: "Color32 \<Rightarrow> Color32 \<Rightarrow> Color32 list" where
  "evaluate_palette4_amd p0 p1 =
     [p0, p1,
      mk_color32 (int ((43 * c32_r p0 + 21 * c32_r p1 + 32) div 8))
        (int ((43 * c32_g p0 + 21 * c32_g p1 + 32) div 8))
        (int ((43 * c32_b p0 + 21 * c32_b p1 + 32) div 8)) 255,
      mk_color32 (int ((43 * c32_r p1 + 21 * c32_r p0 + 32) div 8))
        (int ((43 * c32_g p1 + 21 * c32_g p0 + 32) div 8))
        (int ((43 * c32_b p1 + 21 * c32_b p0 + 32) div 8)) 255]"

text \<open>The 3-colour AMD palette reads the packed fields of \<open>c0\<close> and \<open>c1\<close>.\<close>

definition evaluate_palette3_amd :: "Color16 \<Rightarrow> Color16 \<Rightarrow> Color32 \<Rightarrow> Color32 \<Rightarrow> Color32 list" where
  "evaluate_palette3_amd c0 c1 p0 p1 =
     [p0, p1,
      mk_color32 (int ((c16_r c0 + c16_r c1 + 1) div 2)) (int ((c16_g c0 + c16_g c1 + 1) div 2))
        (int ((c16_b c0 + c16_b c1 + 1) div 2)) 255,
      0]"

definition evaluate_palette_amd :: "Color16 \<Rightarrow> Color16 \<Rightarrow> Color32 list" where
  "evaluate_palette_amd c0 c1 =
     (let p0 = bitexpand_color16_to_color32 c0; p1 = bitexpand_color16_to_color32 c1
      in if c0 > c1 then evaluate_palette4_amd p0 p1 else evaluate_palette3_amd c0 c1 p0 p1)"

text \<open>\<open>ICBC_DECODER\<close> is 0, so the encoder's own palette is the D3D10 one.\<close>

definition evaluate_palette :: "Color16 \<Rightarrow> Color16 \<Rightarrow> Color32 list" where
  "evaluate_palette c0 c1 = evaluate_palette_d3d10 c0 c1"

definition evaluate_palette_v :: "Color16 \<Rightarrow> Color16 \<Rightarrow> Vector3 list" where
  "evaluate_palette_v c0 c1 = map color_to_vector3 (evaluate_palette c0 c1)"

section \<open>Input block processing\<close>

definition is_black :: "Vector3 \<Rightarrow> bool" where
  "is_black c = (vx c < 1 / 8 \<and> vy c < 1 / 8 \<and> vz c < 1 / 8)"

text \<open>
  The inner loop of \<open>reduce_colors\<close>: the index of the first accumulated colour within the
  threshold of \<open>ci\<close>, counted from \<open>j\<close>; the length of the list when there is none.
\<close>

fun find_match :: "Vector3 list \<Rightarrow> Vector3 \<Rightarrow> nat \<Rightarrow> nat" where
  "find_match [] ci j = j"
| "find_match (c # cs) ci j = (if v3_equal c ci (1 / 256) then j else find_match cs ci (Suc j))"

text \<open>
  One pass of the outer loop. The state is the output arrays \<open>colors\<close> and \<open>weights\<close>, as
  long as the running count \<open>n\<close>, and the flag \<open>any_black\<close>.
\<close>

definition reduce_step ::
  "Vector3 list \<times> real list \<times> bool \<Rightarrow> Vector4 \<Rightarrow> real \<Rightarrow> Vector3 list \<times> real list \<times> bool" where
  "reduce_step st c4 wi =
     (case st of (colors, weights, any_black) \<Rightarrow>
        if wi > 0 then
          (let ci = xyz c4; j = find_match colors ci 0
           in if j = length colors
              then (colors @ [ci], weights @ [wi], any_black \<or> is_black ci)
              else (colors, weights[j := weights ! j + wi], any_black \<or> is_black ci))
        else st)"

text \<open>The result is \<open>(n, colors, weights, any_black)\<close>.\<close>

definition reduce_colors ::
  "Vector4 list \<Rightarrow> real list \<Rightarrow> nat \<Rightarrow> nat \<times> Vector3 list \<times> real list \<times> bool" where
  "reduce_colors input_colors input_weights count =
     (case fold (\<lambda>i st. reduce_step st (input_colors ! i) (input_weights ! i)) [0..<count]
             ([], [], False)
      of (colors, weights, any_black) \<Rightarrow> (length colors, colors, weights, any_black))"

definition skip_blacks :: "Vector3 list \<Rightarrow> real list \<Rightarrow> nat \<Rightarrow> nat \<times> Vector3 list \<times> real list" where
  "skip_blacks input_colors input_weights count =
     (case fold (\<lambda>i (colors, weights).
                   if is_black (input_colors ! i) then (colors, weights)
                   else (colors @ [input_colors ! i], weights @ [input_weights ! i]))
             [0..<count] ([], [])
      of (colors, weights) \<Rightarrow> (length colors, colors, weights))"

section \<open>PCA\<close>

definition computeCentroid :: "nat \<Rightarrow> Vector3 list \<Rightarrow> real list \<Rightarrow> Vector3" where
  "computeCentroid n points weights =
     (case fold (\<lambda>i (centroid, tot).
                   (v3_add centroid (v3_scale (points ! i) (weights ! i)), tot + weights ! i))
             [0..<n] (vec3 0 0 0, 0)
      of (centroid, tot) \<Rightarrow> v3_scale centroid (1 / tot))"

text \<open>The six entries of the upper triangle, in the order of the array \<open>covariance\<close>.\<close>

definition computeCovariance :: "nat \<Rightarrow> Vector3 list \<Rightarrow> real list \<Rightarrow> real list" where
  "computeCovariance n points weights =
     (let centroid = computeCentroid n points weights
      in fold (\<lambda>i cov.
                 (let a = v3_sub (points ! i) centroid; b = v3_scale a (weights ! i)
                  in [cov ! 0 + vx a * vx b, cov ! 1 + vx a * vy b, cov ! 2 + vx a * vz b,
                      cov ! 3 + vy a * vy b, cov ! 4 + vy a * vz b, cov ! 5 + vz a * vz b]))
           [0..<n] [0, 0, 0, 0, 0, 0])"

definition estimatePrincipalComponent :: "real list \<Rightarrow> Vector3" where
  "estimatePrincipalComponent matrix =
     (let row0 = vec3 (matrix ! 0) (matrix ! 1) (matrix ! 2);
          row1 = vec3 (matrix ! 1) (matrix ! 3) (matrix ! 4);
          row2 = vec3 (matrix ! 2) (matrix ! 4) (matrix ! 5);
          r0 = lengthSquared row0; r1 = lengthSquared row1; r2 = lengthSquared row2
      in if r0 > r1 \<and> r0 > r2 then row0 else if r1 > r2 then row1 else row2)"

text \<open>The body of the power iteration loop.\<close>

definition power_body :: "real list \<Rightarrow> Vector3 \<Rightarrow> Vector3" where
  "power_body matrix v =
     (let x = vx v * matrix ! 0 + vy v * matrix ! 1 + vz v * matrix ! 2;
          y = vx v * matrix ! 1 + vy v * matrix ! 3 + vz v * matrix ! 4;
          z = vx v * matrix ! 2 + vy v * matrix ! 4 + vz v * matrix ! 5;
          norm = max_t (max_t x y) z
      in v3_scale (vec3 x y z) (1 / norm))"

function power_loop :: "real list \<Rightarrow> nat \<Rightarrow> Vector3 \<Rightarrow> Vector3" where
  "power_loop matrix i v = (if i < 8 then power_loop matrix (i + 1) (power_body matrix v) else v)"
  by pat_completeness auto
termination
  by (relation "measure (\<lambda>(matrix, i, v). 8 - i)") auto

declare power_loop.simps [simp del]

definition firstEigenVector_PowerMethod :: "real list \<Rightarrow> Vector3" where
  "firstEigenVector_PowerMethod matrix =
     (if matrix ! 0 = 0 \<and> matrix ! 3 = 0 \<and> matrix ! 5 = 0 then vec3 0 0 0
      else power_loop matrix 0 (estimatePrincipalComponent matrix))"

definition computePrincipalComponent_PowerMethod :: "nat \<Rightarrow> Vector3 list \<Rightarrow> real list \<Rightarrow> Vector3" where
  "computePrincipalComponent_PowerMethod n points weights =
     firstEigenVector_PowerMethod (computeCovariance n points weights)"

section \<open>Summed area table\<close>

definition FLT_MAX :: real where
  "FLT_MAX = 340282346638528859811704183484516925440"

record SummedAreaTable =
  sat_r :: "real list"
  sat_g :: "real list"
  sat_b :: "real list"
  sat_w :: "real list"

text \<open>
  The inner loop of the insertion sort, on the pairs \<open>(dps[j], order[j])\<close>: entry \<open>j\<close> moves
  down while it is strictly smaller than its predecessor.
\<close>

fun sift_down :: "(real \<times> nat) list \<Rightarrow> nat \<Rightarrow> (real \<times> nat) list" where
  "sift_down xs 0 = xs"
| "sift_down xs (Suc j) =
     (if fst (xs ! Suc j) < fst (xs ! j)
      then sift_down (xs[Suc j := xs ! j, j := xs ! Suc j]) j else xs)"

definition sort_order :: "Vector3 list \<Rightarrow> Vector3 \<Rightarrow> nat \<Rightarrow> nat list" where
  "sort_order colors axis count =
     map snd (fold (\<lambda>i xs. sift_down xs i) [0..<count]
                (map (\<lambda>i. (dot (colors ! i) axis, i)) [0..<count]))"

text \<open>
  The prefix sums: entry 0 is written first, entry \<open>i\<close> adds to entry \<open>i - 1\<close>, and the
  entries from \<open>count\<close> to 15 are \<open>FLT_MAX\<close>. The callers pass a positive \<open>count\<close>.
\<close>

fun prefix_sums :: "real \<Rightarrow> real list \<Rightarrow> real list" where
  "prefix_sums acc [] = []"
| "prefix_sums acc (v # vs) = (acc + v) # prefix_sums (acc + v) vs"

definition sat_channel :: "real list \<Rightarrow> nat \<Rightarrow> real list" where
  "sat_channel terms count =
     (case terms of [] \<Rightarrow> [] | t # ts \<Rightarrow> t # prefix_sums t ts) @ replicate (16 - count) FLT_MAX"

definition compute_sat :: "Vector3 list \<Rightarrow> real list \<Rightarrow> nat \<Rightarrow> nat \<times> SummedAreaTable" where
  "compute_sat colors weights count =
     (let axis = computePrincipalComponent_PowerMethod count colors weights;
          order = sort_order colors axis count
      in (count,
          \<lparr>sat_r = sat_channel (map (\<lambda>k. vx (colors ! k) * weights ! k) order) count,
           sat_g = sat_channel (map (\<lambda>k. vy (colors ! k) * weights ! k) order) count,
           sat_b = sat_channel (map (\<lambda>k. vz (colors ! k) * weights ! k) order) count,
           sat_w = sat_channel (map (\<lambda>k. weights ! k) order) count\<rparr>))"

section \<open>Lane arithmetic of the cluster fit\<close>

text \<open>
  The cluster fit evaluates whole vectors of partitions, also the padded ones that read the
  \<open>FLT_MAX\<close> entries of the table. There the lanes overflow and produce NaN, and the code
  relies on how comparisons and \<open>min\<close>/\<open>max\<close> treat those. A lane value is therefore a
  finite real, an infinity or NaN; a finite result beyond \<open>FLT_MAX\<close> becomes an infinity.
  \<open>VEC_SIZE\<close> is 16, the value of the default build (\<open>ICBC_USE_SPMD\<close> is 5).
\<close>

datatype xfloat = Fin real | PInf | NInf | NaN

definition VEC_SIZE :: nat where
  "VEC_SIZE = 16"

definition xround :: "real \<Rightarrow> xfloat" where
  "xround r = (if r > FLT_MAX then PInf else if r < - FLT_MAX then NInf else Fin r)"

fun xneg :: "xfloat \<Rightarrow> xfloat" where
  "xneg (Fin r) = Fin (- r)"
| "xneg PInf = NInf"
| "xneg NInf = PInf"
| "xneg NaN = NaN"

fun xadd :: "xfloat \<Rightarrow> xfloat \<Rightarrow> xfloat" where
  "xadd (Fin a) (Fin b) = xround (a + b)"
| "xadd NaN b = NaN"
| "xadd a NaN = NaN"
| "xadd PInf NInf = NaN"
| "xadd NInf PInf = NaN"
| "xadd PInf b = PInf"
| "xadd a PInf = PInf"
| "xadd NInf b = NInf"
| "xadd a NInf = NInf"

definition xsub :: "xfloat \<Rightarrow> xfloat \<Rightarrow> xfloat" where
  "xsub a b = xadd a (xneg b)"

fun xsgn :: "xfloat \<Rightarrow> int" where
  "xsgn (Fin r) = (if r > 0 then 1 else if r < 0 then - 1 else 0)"
| "xsgn PInf = 1"
| "xsgn NInf = - 1"
| "xsgn NaN = 0"

fun xmul :: "xfloat \<Rightarrow> xfloat \<Rightarrow> xfloat" where
  "xmul (Fin a) (Fin b) = xround (a * b)"
| "xmul NaN b = NaN"
| "xmul a NaN = NaN"
| "xmul a b = (let s = xsgn a * xsgn b in if s = 0 then NaN else if s > 0 then PInf else NInf)"

fun vrcp :: "xfloat \<Rightarrow> xfloat" where
  "vrcp (Fin a) = (if a = 0 then PInf else xround (1 / a))"
| "vrcp PInf = Fin 0"
| "vrcp NInf = Fin 0"
| "vrcp NaN = NaN"

text \<open>\<open>vmad a b c\<close> is the fused \<open>a * b + c\<close>.\<close>

fun vmad :: "xfloat \<Rightarrow> xfloat \<Rightarrow> xfloat \<Rightarrow> xfloat" where
  "vmad (Fin a) (Fin b) (Fin c) = xround (a * b + c)"
| "vmad a b c = xadd (xmul a b) c"

text \<open>The ordered comparison \<open>a < b\<close>: false when either side is NaN.\<close>

fun xlt :: "xfloat \<Rightarrow> xfloat \<Rightarrow> bool" where
  "xlt (Fin a) (Fin b) = (a < b)"
| "xlt NaN b = False"
| "xlt a NaN = False"
| "xlt a NInf = False"
| "xlt PInf b = False"
| "xlt a b = True"

text \<open>
  \<open>vsaturate\<close> is \<open>min (max a 0) 1\<close> with the vector instructions, which return their second
  operand when an operand is NaN: the result is always a real in the unit interval.
\<close>

fun vsaturate :: "xfloat \<Rightarrow> real" where
  "vsaturate (Fin a) = clamp a 0 1"
| "vsaturate PInf = 1"
| "vsaturate NInf = 0"
| "vsaturate NaN = 0"

text \<open>\<open>vround\<close> rounds to the nearest integer, ties to even.\<close>

definition vround :: "real \<Rightarrow> real" where
  "vround a =
     (let f = \<lfloor>a\<rfloor>; d = a - of_int f
      in if d < 1 / 2 then of_int f else if d > 1 / 2 then of_int (f + 1)
         else if even f then of_int f else of_int (f + 1))"

type_synonym VVector3 = "xfloat \<times> xfloat \<times> xfloat"

definition vbroadcast3 :: "Vector3 \<Rightarrow> VVector3" where
  "vbroadcast3 v = (Fin (vx v), Fin (vy v), Fin (vz v))"

fun vv_add :: "VVector3 \<Rightarrow> VVector3 \<Rightarrow> VVector3" where
  "vv_add (a1, a2, a3) (b1, b2, b3) = (xadd a1 b1, xadd a2 b2, xadd a3 b3)"

fun vv_sub :: "VVector3 \<Rightarrow> VVector3 \<Rightarrow> VVector3" where
  "vv_sub (a1, a2, a3) (b1, b2, b3) = (xsub a1 b1, xsub a2 b2, xsub a3 b3)"

fun vv_mul :: "VVector3 \<Rightarrow> VVector3 \<Rightarrow> VVector3" where
  "vv_mul (a1, a2, a3) (b1, b2, b3) = (xmul a1 b1, xmul a2 b2, xmul a3 b3)"

fun vv_scale :: "VVector3 \<Rightarrow> xfloat \<Rightarrow> VVector3" where
  "vv_scale (a1, a2, a3) b = (xmul a1 b, xmul a2 b, xmul a3 b)"

fun vv_mad :: "VVector3 \<Rightarrow> xfloat \<Rightarrow> VVector3 \<Rightarrow> VVector3" where
  "vv_mad (a1, a2, a3) b (c1, c2, c3) = (vmad a1 b c1, vmad a2 b c2, vmad a3 b c3)"

fun vv_saturate :: "VVector3 \<Rightarrow> Vector3" where
  "vv_saturate (a1, a2, a3) = vec3 (vsaturate a1) (vsaturate a2) (vsaturate a3)"

definition vround_ept :: "Vector3 \<Rightarrow> Vector3" where
  "vround_ept v =
     vec3 (vround (vx v * 31) * (1 / 31)) (vround (vy v * 63) * (1 / 63))
       (vround (vz v * 31) * (1 / 31))"

fun vdot :: "VVector3 \<Rightarrow> VVector3 \<Rightarrow> xfloat" where
  "vdot (a1, a2, a3) (b1, b2, b3) = xadd (xadd (xmul a1 b1) (xmul a2 b2)) (xmul a3 b3)"

section \<open>Cluster fit\<close>

text \<open>A \<open>Combinations\<close> entry is the triple \<open>(c0, c1, c2)\<close>.\<close>

type_synonym Combinations = "nat \<times> nat \<times> nat"

definition four_candidates :: "nat \<Rightarrow> Combinations list" where
  "four_candidates t =
     concat (map (\<lambda>c0. concat (map (\<lambda>c1.
        concat (map (\<lambda>c2. if c0 = 0 \<and> c1 = 0 \<and> c2 = 0 then [] else [(c0, c0 + c1, c0 + c1 + c2)])
          [0..<t - c0 - c1 + 1])) [0..<t - c0 + 1])) [0..<t + 1])"

definition three_candidates :: "nat \<Rightarrow> Combinations list" where
  "three_candidates t =
     concat (map (\<lambda>c0. concat (map (\<lambda>c1. if c0 = 0 \<and> c1 = 0 then [] else [(c0, c0 + c1, 0)])
        [0..<t - c0 + 1])) [0..<t + 1])"

text \<open>
  One pass of the outer loop of \<open>init_cluster_tables\<close> for the total \<open>t\<close>: a candidate is
  appended unless it is among the entries that were there when the pass for \<open>t - 1\<close> ended.
  The state is the table written so far and the list of totals.
\<close>

definition cluster_table_step ::
  "(nat \<Rightarrow> Combinations list) \<Rightarrow> Combinations list \<times> nat list \<Rightarrow> nat \<Rightarrow> Combinations list \<times> nat list" where
  "cluster_table_step candidates st t =
     (case st of (tab, totals) \<Rightarrow>
        (let prev = (if t > 1 then take (totals ! (t - 2)) tab else []);
             tab' = fold (\<lambda>c tb. if List.member prev c then tb else tb @ [c]) (candidates t) tab
         in (tab', totals @ [length tab'])))"

definition cluster_tables :: "(nat \<Rightarrow> Combinations list) \<Rightarrow> Combinations list \<times> nat list" where
  "cluster_tables candidates = fold (\<lambda>t st. cluster_table_step candidates st t) [1..<17] ([], [])"

text \<open>
  The static arrays are zero initialised; after the loops the last entry is replicated
  eight times.
\<close>

definition replicate_last :: "Combinations list \<Rightarrow> nat \<Rightarrow> Combinations list" where
  "replicate_last tab n =
     fold (\<lambda>i a. a[n + i := a ! (n - 1)]) [0..<8] (tab @ replicate (n + 8 - length tab) (0, 0, 0))"

definition s_fourClusterTotal :: "nat list" where
  "s_fourClusterTotal = snd (cluster_tables four_candidates)"

definition s_fourCluster :: "Combinations list" where
  "s_fourCluster = replicate_last (fst (cluster_tables four_candidates)) 968"

definition s_threeClusterTotal :: "nat list" where
  "s_threeClusterTotal = snd (cluster_tables three_candidates)"

definition s_threeCluster :: "Combinations list" where
  "s_threeCluster = replicate_last (fst (cluster_tables three_candidates)) 152"

text \<open>
  The table lookup of one lane: zero for the index 0, otherwise the entry \<open>c - 1\<close> of the four
  arrays.
\<close>

definition sat_load :: "SummedAreaTable \<Rightarrow> nat \<Rightarrow> VVector3 \<times> xfloat" where
  "sat_load sat c =
     (if c = 0 then ((Fin 0, Fin 0, Fin 0), Fin 0)
      else ((Fin (sat_r sat ! (c - 1)), Fin (sat_g sat ! (c - 1)), Fin (sat_b sat ! (c - 1))),
            Fin (sat_w sat ! (c - 1))))"

text \<open>
  The closed form of the error and its weighting by the metric, shared by both solvers.
\<close>

definition lane_error ::
  "Vector3 \<Rightarrow> Vector3 \<Rightarrow> xfloat \<Rightarrow> xfloat \<Rightarrow> xfloat \<Rightarrow> VVector3 \<Rightarrow> VVector3 \<Rightarrow> Vector3 \<Rightarrow> xfloat" where
  "lane_error a b alpha2_sum beta2_sum alphabeta_sum alphax_sum betax_sum metric_sqr =
     (let va = vbroadcast3 a; vb = vbroadcast3 b;
          e1 = vv_mad (vv_mul va va) alpha2_sum
                 (vv_mad (vv_mul vb vb) beta2_sum
                    (vv_scale
                       (vv_sub (vv_sub (vv_scale (vv_mul va vb) alphabeta_sum) (vv_mul va alphax_sum))
                          (vv_mul vb betax_sum))
                       (Fin 2)))
      in vdot e1 (vbroadcast3 metric_sqr))"

text \<open>The end points of one lane from the five sums.\<close>

definition lane_endpoints ::
  "xfloat \<Rightarrow> xfloat \<Rightarrow> xfloat \<Rightarrow> VVector3 \<Rightarrow> VVector3 \<Rightarrow> Vector3 \<times> Vector3" where
  "lane_endpoints alpha2_sum beta2_sum alphabeta_sum alphax_sum betax_sum =
     (let factor = vrcp (xsub (xmul alpha2_sum beta2_sum) (xmul alphabeta_sum alphabeta_sum));
          a = vv_scale (vv_sub (vv_scale alphax_sum beta2_sum) (vv_scale betax_sum alphabeta_sum)) factor;
          b = vv_scale (vv_sub (vv_scale betax_sum alpha2_sum) (vv_scale alphax_sum alphabeta_sum)) factor
      in (vround_ept (vv_saturate a), vround_ept (vv_saturate b)))"

text \<open>One lane of the loop body of \<open>cluster_fit_four\<close>: the error and the two end points.\<close>

definition lane_four ::
  "SummedAreaTable \<Rightarrow> nat \<Rightarrow> Vector3 \<Rightarrow> Combinations \<Rightarrow> xfloat \<times> Vector3 \<times> Vector3" where
  "lane_four sat count metric_sqr c =
     (case c of (c0, c1, c2) \<Rightarrow>
       (case sat_load sat c0 of (x0, w0) \<Rightarrow>
       (case sat_load sat c1 of (x1c, w1c) \<Rightarrow>
       (case sat_load sat c2 of (x2c, w2c) \<Rightarrow>
        (let rgb_sum = (Fin (sat_r sat ! (count - 1)), Fin (sat_g sat ! (count - 1)),
                     Fin (sat_b sat ! (count - 1)));
             w_sum = Fin (sat_w sat ! (count - 1));
             w3 = xsub w_sum w2c;
             x2 = vv_sub x2c x1c;
             x1 = vv_sub x1c x0;
             w2 = xsub w2c w1c;
             w1 = xsub w1c w0;
             alpha2_sum = vmad w2 (Fin (1 / 9)) (vmad w1 (Fin (4 / 9)) w0);
             beta2_sum = vmad w1 (Fin (1 / 9)) (vmad w2 (Fin (4 / 9)) w3);
             alphabeta_sum = xmul (xadd w1 w2) (Fin (2 / 9));
             alphax_sum = vv_mad x2 (Fin (1 / 3)) (vv_mad x1 (Fin (2 / 3)) x0);
             betax_sum = vv_sub rgb_sum alphax_sum
         in (case lane_endpoints alpha2_sum beta2_sum alphabeta_sum alphax_sum betax_sum of
               (a, b) \<Rightarrow>
                 (lane_error a b alpha2_sum beta2_sum alphabeta_sum alphax_sum betax_sum metric_sqr,
                  a, b)))))))"

text \<open>One lane of the loop body of \<open>cluster_fit_three\<close>.\<close>

definition lane_three ::
  "SummedAreaTable \<Rightarrow> nat \<Rightarrow> Vector3 \<Rightarrow> Combinations \<Rightarrow> xfloat \<times> Vector3 \<times> Vector3" where
  "lane_three sat count metric_sqr c =
     (case c of (c0, c1, c2) \<Rightarrow>
       (case sat_load sat c0 of (x0, w0) \<Rightarrow>
       (case sat_load sat c1 of (x1c, w1c) \<Rightarrow>
        (let rgb_sum = (Fin (sat_r sat ! (count - 1)), Fin (sat_g sat ! (count - 1)),
                     Fin (sat_b sat ! (count - 1)));
             w_sum = Fin (sat_w sat ! (count - 1));
             w2 = xsub w_sum w1c;
             x1 = vv_sub x1c x0;
             w1 = xsub w1c w0;
             alphabeta_sum = xmul w1 (Fin (1 / 4));
             alpha2_sum = xadd w0 alphabeta_sum;
             beta2_sum = xadd w2 alphabeta_sum;
             alphax_sum = vv_add x0 (vv_scale x1 (Fin (1 / 2)));
             betax_sum = vv_sub rgb_sum alphax_sum
         in (case lane_endpoints alpha2_sum beta2_sum alphabeta_sum alphax_sum betax_sum of
               (a, b) \<Rightarrow>
                 (lane_error a b alpha2_sum beta2_sum alphabeta_sum alphax_sum betax_sum metric_sqr,
                  a, b))))))"

text \<open>
  The per-lane running best \<open>(vbesterror, vbeststart, vbestend)\<close> takes the candidate when
  its error is strictly smaller.
\<close>

definition lane_select ::
  "xfloat \<times> Vector3 \<times> Vector3 \<Rightarrow> xfloat \<times> Vector3 \<times> Vector3 \<Rightarrow> xfloat \<times> Vector3 \<times> Vector3" where
  "lane_select best cand = (if xlt (fst cand) (fst best) then cand else best)"

text \<open>
  The loop over the table in steps of \<open>VEC_SIZE\<close>, then the reduction over the lanes. The
  reduction leaves \<open>bestindex\<close> uninitialised when no lane is below \<open>FLT_MAX\<close>; what the
  code then reads is the parameter \<open>indeterminate\<close>.
\<close>

definition cluster_fit_lanes ::
  "(Combinations \<Rightarrow> xfloat \<times> Vector3 \<times> Vector3) \<Rightarrow> Combinations list \<Rightarrow> nat
     \<Rightarrow> (xfloat \<times> Vector3 \<times> Vector3) list" where
  "cluster_fit_lanes lane tab total_order_count =
     fold (\<lambda>k lanes. map (\<lambda>l. lane_select (lanes ! l) (lane (tab ! (k * VEC_SIZE + l)))) [0..<VEC_SIZE])
       [0..<(total_order_count + VEC_SIZE - 1) div VEC_SIZE]
       (replicate VEC_SIZE (Fin FLT_MAX, vec3 0 0 0, vec3 0 0 0))"

definition cluster_fit_reduce ::
  "(xfloat \<times> Vector3 \<times> Vector3) list \<Rightarrow> Vector3 \<times> Vector3 \<Rightarrow> Vector3 \<times> Vector3" where
  "cluster_fit_reduce lanes indeterminate =
     (case fold (\<lambda>i (besterror, bestindex).
                   if xlt (fst (lanes ! i)) besterror then (fst (lanes ! i), Some i)
                   else (besterror, bestindex))
             [0..<VEC_SIZE] (Fin FLT_MAX, None)
      of (besterror, bestindex) \<Rightarrow>
        (case bestindex of None \<Rightarrow> indeterminate | Some i \<Rightarrow> snd (lanes ! i)))"

definition cluster_fit_three ::
  "Vector3 \<times> Vector3 \<Rightarrow> SummedAreaTable \<Rightarrow> nat \<Rightarrow> Vector3 \<Rightarrow> Vector3 \<times> Vector3" where
  "cluster_fit_three indeterminate sat count metric_sqr =
     cluster_fit_reduce
       (cluster_fit_lanes (lane_three sat count metric_sqr) s_threeCluster
          (s_threeClusterTotal ! (count - 1)))
       indeterminate"

definition cluster_fit_four ::
  "Vector3 \<times> Vector3 \<Rightarrow> SummedAreaTable \<Rightarrow> nat \<Rightarrow> Vector3 \<Rightarrow> Vector3 \<times> Vector3" where
  "cluster_fit_four indeterminate sat count metric_sqr =
     cluster_fit_reduce
       (cluster_fit_lanes (lane_four sat count metric_sqr) s_fourCluster
          (s_fourClusterTotal ! (count - 1)))
       indeterminate"

section \<open>Error evaluation and index selection\<close>

definition evaluate_mse_v :: "Vector3 \<Rightarrow> Vector3 \<Rightarrow> Vector3 \<Rightarrow> real" where
  "evaluate_mse_v p c w = (let d = v3_scale (v3_mul (v3_sub p c) w) 255 in dot d d)"

definition evaluate_mse_c :: "Color32 \<Rightarrow> Vector3 \<Rightarrow> Vector3 \<Rightarrow> real" where
  "evaluate_mse_c p c w =
     (let d = v3_scale (v3_mul (v3_sub (color_to_vector3 p) c) w) 255 in dot d d)"

text \<open>The weighted error of a block against the 16 input texels.\<close>

definition evaluate_mse :: "Vector4 list \<Rightarrow> real list \<Rightarrow> Vector3 \<Rightarrow> BlockDXT1 \<Rightarrow> real" where
  "evaluate_mse input_colors input_weights color_weights output =
     (let palette = evaluate_palette (col0 output) (col1 output)
      in fold (\<lambda>i error.
                 (let index = unat (drop_bit (2 * i) (indices output) AND 3)
                  in error + input_weights ! i
                       * evaluate_mse_c (palette ! index) (xyz (input_colors ! i)) color_weights))
           [0..<16] 0)"

definition b2w :: "bool \<Rightarrow> 32 word" where
  "b2w b = (if b then 1 else 0)"

definition compute_indices4 :: "Vector4 list \<Rightarrow> Vector3 \<Rightarrow> Vector3 list \<Rightarrow> 32 word" where
  "compute_indices4 input_colors color_weights palette =
     fold (\<lambda>i ind.
             (let d0 = evaluate_mse_v (palette ! 0) (xyz (input_colors ! i)) color_weights;
                  d1 = evaluate_mse_v (palette ! 1) (xyz (input_colors ! i)) color_weights;
                  d2 = evaluate_mse_v (palette ! 2) (xyz (input_colors ! i)) color_weights;
                  d3 = evaluate_mse_v (palette ! 3) (xyz (input_colors ! i)) color_weights;
                  b0 = b2w (d0 > d3); b1 = b2w (d1 > d2); b2 = b2w (d0 > d2);
                  b3 = b2w (d1 > d3); b4 = b2w (d2 > d3);
                  x0 = b1 AND b2; x1 = b0 AND b3; x2 = b0 AND b4
              in ind OR push_bit (2 * i) (x2 OR push_bit 1 (x0 OR x1))))
       [0..<16] 0"

definition compute_indices :: "Vector4 list \<Rightarrow> Vector3 \<Rightarrow> Vector3 list \<Rightarrow> 32 word" where
  "compute_indices input_colors color_weights palette =
     fold (\<lambda>i ind.
             (let d0 = evaluate_mse_v (palette ! 0) (xyz (input_colors ! i)) color_weights;
                  d1 = evaluate_mse_v (palette ! 1) (xyz (input_colors ! i)) color_weights;
                  d2 = evaluate_mse_v (palette ! 2) (xyz (input_colors ! i)) color_weights;
                  d3 = evaluate_mse_v (palette ! 3) (xyz (input_colors ! i)) color_weights;
                  index = (if d0 < d1 \<and> d0 < d2 \<and> d0 < d3 then 0
                           else if d1 < d2 \<and> d1 < d3 then 1
                           else if d2 < d3 then 2 else 3) :: 32 word
              in ind OR push_bit (2 * i) index))
       [0..<16] 0"

definition output_block3 :: "Vector4 list \<Rightarrow> Vector3 \<Rightarrow> Vector3 \<Rightarrow> Vector3 \<Rightarrow> BlockDXT1" where
  "output_block3 input_colors color_weights v0 v1 =
     (let color0 = vector3_to_color16 v0; color1 = vector3_to_color16 v1;
          c0 = (if color0 > color1 then color1 else color0);
          c1 = (if color0 > color1 then color0 else color1)
      in \<lparr>col0 = c0, col1 = c1,
          indices = compute_indices input_colors color_weights (evaluate_palette_v c0 c1)\<rparr>)"

definition output_block4 :: "Vector4 list \<Rightarrow> Vector3 \<Rightarrow> Vector3 \<Rightarrow> Vector3 \<Rightarrow> BlockDXT1" where
  "output_block4 input_colors color_weights v0 v1 =
     (let color0 = vector3_to_color16 v0; color1 = vector3_to_color16 v1;
          c0 = (if color0 < color1 then color1 else color0);
          c1 = (if color0 < color1 then color0 else color1)
      in \<lparr>col0 = c0, col1 = c1,
          indices = compute_indices4 input_colors color_weights (evaluate_palette_v c0 c1)\<rparr>)"

section \<open>End point optimisation and the bounding box\<close>

text \<open>
  The least squares fit over the indices of a block. The five sums are accumulated over the
  texels; the result is \<open>None\<close> where the code returns false and leaves its outputs alone.
\<close>

definition optimize_end_points4 :: "32 word \<Rightarrow> Vector4 list \<Rightarrow> nat \<Rightarrow> (Vector3 \<times> Vector3) option" where
  "optimize_end_points4 ind colors count =
     (case fold (\<lambda>i (alpha2_sum, beta2_sum, alphabeta_sum, alphax_sum, betax_sum).
                   (let bits = drop_bit (2 * i) ind;
                        beta0 = (if bits AND 1 = 0 then 0 else 1) :: real;
                        beta = (if bits AND 2 \<noteq> 0 then (1 + beta0) / 3 else beta0);
                        alpha = 1 - beta
                    in (alpha2_sum + alpha * alpha, beta2_sum + beta * beta,
                        alphabeta_sum + alpha * beta,
                        v3_add alphax_sum (v3_scale (xyz (colors ! i)) alpha),
                        v3_add betax_sum (v3_scale (xyz (colors ! i)) beta))))
             [0..<count] (0, 0, 0, vec3 0 0 0, vec3 0 0 0)
      of (alpha2_sum, beta2_sum, alphabeta_sum, alphax_sum, betax_sum) \<Rightarrow>
        (let denom = alpha2_sum * beta2_sum - alphabeta_sum * alphabeta_sum
         in if equal_eps denom 0 (1 / 10000) then None
            else (let factor = 1 / denom
                  in Some
                       (v3_saturate (v3_scale (v3_sub (v3_scale alphax_sum beta2_sum)
                                        (v3_scale betax_sum alphabeta_sum)) factor),
                        v3_saturate (v3_scale (v3_sub (v3_scale betax_sum alpha2_sum)
                                        (v3_scale alphax_sum alphabeta_sum)) factor)))))"

definition fit_colors_bbox :: "Vector3 list \<Rightarrow> nat \<Rightarrow> Vector3 \<times> Vector3" where
  "fit_colors_bbox colors count =
     fold (\<lambda>i (c0, c1). (v3_max c0 (colors ! i), v3_min c1 (colors ! i))) [0..<count]
       (vec3 0 0 0, vec3 1 1 1)"

definition inset_bbox :: "Vector3 \<times> Vector3 \<Rightarrow> Vector3 \<times> Vector3" where
  "inset_bbox cc =
     (case cc of (c0, c1) \<Rightarrow>
        (let bias = (8 / 255) / 16;
             inset = v3_sub (v3_div (v3_sub c0 c1) 16) (scalar_to_vector3 bias)
         in (v3_saturate (v3_sub c0 inset), v3_saturate (v3_add c1 inset))))"

definition select_diagonal :: "Vector3 list \<Rightarrow> nat \<Rightarrow> Vector3 \<times> Vector3 \<Rightarrow> Vector3 \<times> Vector3" where
  "select_diagonal colors count cc =
     (case cc of (c0, c1) \<Rightarrow>
        (let center = v3_scale (v3_add c0 c1) (1 / 2);
             cov = fold (\<lambda>i (cov_xz, cov_yz).
                           (let t = v3_sub (colors ! i) center
                            in (cov_xz + vx t * vz t, cov_yz + vy t * vz t)))
                     [0..<count] (0, 0);
             x0 = (if fst cov < 0 then vx c1 else vx c0);
             x1 = (if fst cov < 0 then vx c0 else vx c1);
             y0 = (if snd cov < 0 then vy c1 else vy c0);
             y1 = (if snd cov < 0 then vy c0 else vy c1)
         in (vec3 x0 y0 (vz c0), vec3 x1 y1 (vz c1))))"

section \<open>Single colour blocks\<close>

definition Lerp13 :: "int \<Rightarrow> int \<Rightarrow> int" where
  "Lerp13 a b = (a * 2 + b) div 3"

text \<open>
  One pass of the innermost loop of \<open>PrepareOptTable\<close>. The state is \<open>bestErr\<close> and the two
  table bytes of the entry \<open>i\<close>.
\<close>

definition opt_candidate ::
  "nat list \<Rightarrow> int \<Rightarrow> nat \<Rightarrow> int \<times> nat \<times> nat \<Rightarrow> nat \<Rightarrow> int \<times> nat \<times> nat" where
  "opt_candidate expand i mn st mx =
     (let mine = int (expand ! mn); maxe = int (expand ! mx);
          err = \<bar>Lerp13 maxe mine - i\<bar> * 100 + \<bar>int mx - int mn\<bar> * 3
      in if err < fst st then (err, mx, mn) else st)"

definition opt_entry :: "nat list \<Rightarrow> nat \<Rightarrow> nat \<Rightarrow> nat \<times> nat" where
  "opt_entry expand sz i =
     snd (fold (\<lambda>mn st. fold (\<lambda>mx st'. opt_candidate expand (int i) mn st' mx) [0..<sz] st)
            [0..<sz] (256 * 100, 0, 0))"

definition PrepareOptTable :: "nat list \<Rightarrow> nat \<Rightarrow> (nat \<times> nat) list" where
  "PrepareOptTable expand sz = map (opt_entry expand sz) [0..<256]"

definition expand5 :: "nat list" where
  "expand5 = map (\<lambda>i. unat ((push_bit 3 (of_nat i) OR drop_bit 2 (of_nat i)) :: 8 word)) [0..<32]"

definition expand6 :: "nat list" where
  "expand6 = map (\<lambda>i. unat ((push_bit 2 (of_nat i) OR drop_bit 4 (of_nat i)) :: 8 word)) [0..<64]"

definition s_match5 :: "(nat \<times> nat) list" where
  "s_match5 = PrepareOptTable expand5 32"

definition s_match6 :: "(nat \<times> nat) list" where
  "s_match6 = PrepareOptTable expand6 64"

text \<open>
  The six table reads of \<open>compress_dxt1_single_color_optimal\<close>. The three bit fields of each
  end point are all assigned, so the pair does not depend on what \<open>output\<close> held before.
\<close>

definition single_color_endpoints :: "Color32 \<Rightarrow> Color16 \<times> Color16" where
  "single_color_endpoints c =
     (c16_set_b (c16_set_g (c16_set_r 0 (int (fst (s_match5 ! c32_r c))))
                   (int (fst (s_match6 ! c32_g c)))) (int (fst (s_match5 ! c32_b c))),
      c16_set_b (c16_set_g (c16_set_r 0 (int (snd (s_match5 ! c32_r c))))
                   (int (snd (s_match6 ! c32_g c)))) (int (snd (s_match5 ! c32_b c))))"

definition compress_dxt1_single_color_optimal :: "Color32 \<Rightarrow> BlockDXT1" where
  "compress_dxt1_single_color_optimal c =
     (case single_color_endpoints c of (c0, c1) \<Rightarrow>
        (let ind = 0xaaaaaaaa :: 32 word
         in if c0 < c1 then \<lparr>col0 = c1, col1 = c0, indices = ind XOR 0x55555555\<rparr>
            else \<lparr>col0 = c0, col1 = c1, indices = ind\<rparr>))"

section \<open>The compressor\<close>

text \<open>
  \<open>compress_dxt1_cluster_fit\<close> returns the error and the block. The two parameters \<open>ind4\<close> and
  \<open>ind3\<close> stand for what the two solvers read through an uninitialised \<open>bestindex\<close>.
\<close>

definition compress_dxt1_cluster_fit ::
  "Vector3 \<times> Vector3 \<Rightarrow> Vector3 \<times> Vector3 \<Rightarrow> Vector4 list \<Rightarrow> real list \<Rightarrow> Vector3 list
     \<Rightarrow> real list \<Rightarrow> nat \<Rightarrow> Vector3 \<Rightarrow> bool \<Rightarrow> bool \<Rightarrow> real \<times> BlockDXT1" where
  "compress_dxt1_cluster_fit ind4 ind3 input_colors input_weights colors weights count
       color_weights three_color_mode use_transparent_black =
     (let metric_sqr = v3_mul color_weights color_weights;
          (sat_count, sat) = compute_sat colors weights count;
          (start, end) = cluster_fit_four ind4 sat sat_count metric_sqr;
          output = output_block4 input_colors color_weights start end;
          best_error = evaluate_mse input_colors input_weights color_weights output
      in if three_color_mode then
           (case (if use_transparent_black then
                    (case skip_blacks colors weights count of (tmp_count, tmp_colors, tmp_weights) \<Rightarrow>
                       if tmp_count = 0 then None
                       else Some (compute_sat tmp_colors tmp_weights tmp_count))
                  else Some (sat_count, sat))
            of None \<Rightarrow> (best_error, output)
             | Some (sat_count3, sat3) \<Rightarrow>
                 (let (start3, end3) = cluster_fit_three ind3 sat3 sat_count3 metric_sqr;
                      three_color_block = output_block3 input_colors color_weights start3 end3;
                      three_color_error =
                        evaluate_mse input_colors input_weights color_weights three_color_block
                  in if three_color_error < best_error then (three_color_error, three_color_block)
                     else (best_error, output)))
         else (best_error, output))"

definition deltas :: "(int \<times> int \<times> int) list" where
  "deltas =
     [(1, 0, 0), (0, 1, 0), (0, 0, 1),
      (- 1, 0, 0), (0, - 1, 0), (0, 0, - 1),
      (1, 1, 0), (1, 0, 1), (0, 1, 1),
      (- 1, - 1, 0), (- 1, 0, - 1), (0, - 1, - 1),
      (- 1, 1, 0),
      (1, - 1, 0), (0, - 1, 1),
      (0, 1, - 1)]"

text \<open>Adding a delta to the three bit fields of an end point; each field wraps on its own.\<close>

definition c16_add_delta :: "Color16 \<Rightarrow> int \<times> int \<times> int \<Rightarrow> Color16" where
  "c16_add_delta c d =
     (case d of (dr, dg, db) \<Rightarrow>
        (let c1 = c16_set_r c (int (c16_r c) + dr);
             c2 = c16_set_g c1 (int (c16_g c1) + dg)
         in c16_set_b c2 (int (c16_b c2) + db)))"

text \<open>The candidate block of step \<open>i\<close> of \<open>refine_endpoints\<close>, before its indices are set.\<close>

definition refine_candidate :: "bool \<Rightarrow> nat \<Rightarrow> BlockDXT1 \<Rightarrow> BlockDXT1" where
  "refine_candidate three_color_mode i output =
     (let delta = deltas ! (i mod 16);
          r1 = (if odd (i div 16) then output\<lparr>col0 := c16_add_delta (col0 output) delta\<rparr>
                else output\<lparr>col1 := c16_add_delta (col1 output) delta\<rparr>)
      in if \<not> three_color_mode then
           (let r2 = (if col0 r1 = col1 r1
                      then r1\<lparr>col1 := c16_set_g (col1 r1) (int (c16_g (col1 r1)) + 1)\<rparr> else r1)
            in if col0 r2 < col1 r2 then r2\<lparr>col0 := col1 r2, col1 := col0 r2\<rparr> else r2)
         else r1)"

text \<open>
  One pass of the loop body: the state is \<open>(best_error, output, lastImprovement)\<close>. The
  palette for the new indices is the one of \<open>output\<close>.
\<close>

definition refine_step ::
  "Vector4 list \<Rightarrow> real list \<Rightarrow> Vector3 \<Rightarrow> bool \<Rightarrow> nat \<Rightarrow> real \<times> BlockDXT1 \<times> nat
     \<Rightarrow> real \<times> BlockDXT1 \<times> nat" where
  "refine_step input_colors input_weights color_weights three_color_mode i st =
     (case st of (best_error, output, lastImprovement) \<Rightarrow>
        (let palette = evaluate_palette_v (col0 output) (col1 output);
             refined = (refine_candidate three_color_mode i output)
                         \<lparr>indices := compute_indices input_colors color_weights palette\<rparr>;
             refined_error = evaluate_mse input_colors input_weights color_weights refined
         in if refined_error < best_error then (refined_error, refined, i)
            else (best_error, output, lastImprovement)))"

function refine_loop ::
  "Vector4 list \<Rightarrow> real list \<Rightarrow> Vector3 \<Rightarrow> bool \<Rightarrow> nat \<Rightarrow> real \<times> BlockDXT1 \<times> nat
     \<Rightarrow> real \<times> BlockDXT1 \<times> nat" where
  "refine_loop input_colors input_weights color_weights three_color_mode i st =
     (if i < 256 then
        (let st' = refine_step input_colors input_weights color_weights three_color_mode i st
         in if int i - int (snd (snd st')) > 32 then st'
            else refine_loop input_colors input_weights color_weights three_color_mode (i + 1) st')
      else st)"
  by pat_completeness auto
termination
  by (relation "measure (\<lambda>(input_colors, input_weights, color_weights, three_color_mode, i, st). 256 - i)")
    auto

declare refine_loop.simps [simp del]

definition refine_endpoints ::
  "Vector4 list \<Rightarrow> real list \<Rightarrow> Vector3 \<Rightarrow> bool \<Rightarrow> real \<Rightarrow> BlockDXT1 \<Rightarrow> real \<times> BlockDXT1" where
  "refine_endpoints input_colors input_weights color_weights three_color_mode input_error output =
     (case refine_loop input_colors input_weights color_weights three_color_mode 0
             (input_error, output, 0)
      of (best_error, output', lastImprovement) \<Rightarrow> (best_error, output'))"

text \<open>\<open>compress_dxt1\<close> returns the error and the block it writes.\<close>

definition compress_dxt1 ::
  "Vector3 \<times> Vector3 \<Rightarrow> Vector3 \<times> Vector3 \<Rightarrow> Vector4 list \<Rightarrow> real list \<Rightarrow> Vector3 \<Rightarrow> bool \<Rightarrow> bool
     \<Rightarrow> real \<times> BlockDXT1" where
  "compress_dxt1 ind4 ind3 input_colors input_weights color_weights three_color_mode hq =
     (case reduce_colors input_colors input_weights 16 of
        (count, colors, weights, use_transparent_black) \<Rightarrow>
          if count = 0 then (0, \<lparr>col0 = 0, col1 = 0, indices = 0\<rparr>)
          else if count = 1 then
            (let output = compress_dxt1_single_color_optimal (vector3_to_color32 (colors ! 0))
             in (evaluate_mse input_colors input_weights color_weights output, output))
          else
            (let (c0, c1) = select_diagonal colors count (inset_bbox (fit_colors_bbox colors count));
                 output0 = output_block4 input_colors color_weights c0 c1;
                 error0 = evaluate_mse input_colors input_weights color_weights output0;
                 (error1, output1) =
                   (case optimize_end_points4 (indices output0) input_colors 16 of
                      None \<Rightarrow> (error0, output0)
                    | Some (a, b) \<Rightarrow>
                        (let optimized_block = output_block4 input_colors color_weights a b;
                             optimized_error =
                               evaluate_mse input_colors input_weights color_weights optimized_block
                         in if optimized_error < error0 then (optimized_error, optimized_block)
                            else (error0, output0)));
                 (cluster_fit_error, cluster_fit_output) =
                   compress_dxt1_cluster_fit ind4 ind3 input_colors input_weights colors weights
                     count color_weights three_color_mode use_transparent_black;
                 (error2, output2) =
                   (if cluster_fit_error < error1 then (cluster_fit_error, cluster_fit_output)
                    else (error1, output1))
             in if hq then
                  refine_endpoints input_colors input_weights color_weights three_color_mode
                    error2 output2
                else (error2, output2)))"

section \<open>Auxiliary definitions and example inputs\<close>

text \<open>The error term of one candidate pair of \<open>PrepareOptTable\<close>.\<close>

definition opt_err :: "nat list \<Rightarrow> int \<Rightarrow> nat \<Rightarrow> nat \<Rightarrow> int" where
  "opt_err expand i mn mx =
     \<bar>Lerp13 (int (expand ! mx)) (int (expand ! mn)) - i\<bar> * 100 + \<bar>int mx - int mn\<bar> * 3"

text \<open>
  The power iteration in the words of the specification, with the norm as a parameter: the
  vector is multiplied by the symmetric matrix and divided by its norm, eight times, from
  the seed of the code; the zero vector when the three diagonal entries are zero.
  \<open>signed_max_norm\<close> is the largest component, \<open>abs_max_norm\<close> the largest component in
  absolute value. \<open>cov_example\<close> is the covariance of the points \<open>(-2, 0, 1)\<close>,
  \<open>(2, 1, -3)\<close>, \<open>(1, 3, 1)\<close> and their negatives, up to scale.
\<close>

definition sym_mul :: "real list \<Rightarrow> Vector3 \<Rightarrow> Vector3" where
  "sym_mul matrix v =
     vec3 (vx v * matrix ! 0 + vy v * matrix ! 1 + vz v * matrix ! 2)
          (vx v * matrix ! 1 + vy v * matrix ! 3 + vz v * matrix ! 4)
          (vx v * matrix ! 2 + vy v * matrix ! 4 + vz v * matrix ! 5)"

definition signed_max_norm :: "Vector3 \<Rightarrow> real" where
  "signed_max_norm u = max (max (vx u) (vy u)) (vz u)"

definition abs_max_norm :: "Vector3 \<Rightarrow> real" where
  "abs_max_norm u = max (max \<bar>vx u\<bar> \<bar>vy u\<bar>) \<bar>vz u\<bar>"

definition spec_power_step :: "(Vector3 \<Rightarrow> real) \<Rightarrow> real list \<Rightarrow> Vector3 \<Rightarrow> Vector3" where
  "spec_power_step nrm matrix v = v3_div (sym_mul matrix v) (nrm (sym_mul matrix v))"

definition spec_firstEigenVector :: "(Vector3 \<Rightarrow> real) \<Rightarrow> real list \<Rightarrow> Vector3" where
  "spec_firstEigenVector nrm matrix =
     (if matrix ! 0 = 0 \<and> matrix ! 3 = 0 \<and> matrix ! 5 = 0 then vec3 0 0 0
      else ((spec_power_step nrm matrix) ^^ 8) (estimatePrincipalComponent matrix))"

definition cov_example :: "real list" where
  "cov_example = [9, 5, - 7, 10, 0, 11]"

text \<open>Texels of the example blocks.\<close>

definition red_texel :: Vector4 where
  "red_texel = \<lparr>xyz = vec3 1 0 0, vw = 1\<rparr>"

definition grey_texel :: Vector4 where
  "grey_texel = \<lparr>xyz = vec3 (1 / 2) (1 / 2) (1 / 2), vw = 1\<rparr>"


definition black_texel :: Vector4 where
  "black_texel = \<lparr>xyz = vec3 0 0 0, vw = 1\<rparr>"

section \<open>Mode selection and the high quality pass\<close>

lemma output_block4_ordered: "col1 (output_block4 ic cw v0 v1) \<le> col0 (output_block4 ic cw v0 v1)"
  by (auto simp add: output_block4_def Let_def)

lemma single_color_ordered:
  "col1 (compress_dxt1_single_color_optimal c) \<le> col0 (compress_dxt1_single_color_optimal c)"
  by (auto simp add: compress_dxt1_single_color_optimal_def Let_def split: prod.splits)

lemma refine_candidate_ordered:
  "col1 (refine_candidate False i out) \<le> col0 (refine_candidate False i out)"
  by (auto simp add: refine_candidate_def Let_def)

lemma refine_step_ordered:
  assumes "col1 (fst (snd st)) \<le> col0 (fst (snd st))"
  shows "col1 (fst (snd (refine_step ic iw cw False i st))) \<le> col0 (fst (snd (refine_step ic iw cw False i st)))"
  using assms refine_candidate_ordered [of i "fst (snd st)"]
  by (cases st) (simp add: refine_step_def Let_def)

lemma refine_loop_exit:
  "i < 256 \<Longrightarrow> int i - int (snd (snd (refine_step ic iw cw tcm i st))) > 32 \<Longrightarrow>
   refine_loop ic iw cw tcm i st = refine_step ic iw cw tcm i st"
  by (subst refine_loop.simps) (simp add: Let_def)

lemma refine_loop_continue:
  "i < 256 \<Longrightarrow> \<not> int i - int (snd (snd (refine_step ic iw cw tcm i st))) > 32 \<Longrightarrow>
   refine_loop ic iw cw tcm i st = refine_loop ic iw cw tcm (i + 1) (refine_step ic iw cw tcm i st)"
  by (subst refine_loop.simps) (simp add: Let_def)

lemma refine_loop_done: "\<not> i < 256 \<Longrightarrow> refine_loop ic iw cw tcm i st = st"
  by (subst refine_loop.simps) simp

lemma refine_loop_ordered:
  "\<not> tcm \<Longrightarrow> col1 (fst (snd st)) \<le> col0 (fst (snd st)) \<Longrightarrow>
   col1 (fst (snd (refine_loop ic iw cw tcm i st))) \<le> col0 (fst (snd (refine_loop ic iw cw tcm i st)))"
proof (induction ic iw cw tcm i st rule: refine_loop.induct)
  case (1 ic iw cw tcm i st)
  show ?case
  proof (cases "i < 256")
    case True
    let ?st' = "refine_step ic iw cw tcm i st"
    have o: "col1 (fst (snd ?st')) \<le> col0 (fst (snd ?st'))"
      using "1.prems" refine_step_ordered [of st ic iw cw i] by simp
    show ?thesis
    proof (cases "int i - int (snd (snd ?st')) > 32")
      case True
      show ?thesis unfolding refine_loop_exit [OF \<open>i < 256\<close> True] by (rule o)
    next
      case False
      show ?thesis unfolding refine_loop_continue [OF \<open>i < 256\<close> False]
        by (rule "1.IH" [OF \<open>i < 256\<close> refl False "1.prems"(1) o])
    qed
  next
    case False
    with "1.prems" show ?thesis by (simp add: refine_loop_done)
  qed
qed

lemma refine_endpoints_ordered:
  "col1 out \<le> col0 out \<Longrightarrow>
   col1 (snd (refine_endpoints ic iw cw False e out)) \<le> col0 (snd (refine_endpoints ic iw cw False e out))"
  using refine_loop_ordered [of False "(e, out, 0)" ic iw cw 0]
  by (cases "refine_loop ic iw cw False 0 (e, out, 0)") (simp add: refine_endpoints_def)

lemma cluster_fit_ordered:
  "col1 (snd (compress_dxt1_cluster_fit i4 i3 ic iw cs ws n cw False tb))
     \<le> col0 (snd (compress_dxt1_cluster_fit i4 i3 ic iw cs ws n cw False tb))"
  by (simp add: compress_dxt1_cluster_fit_def Let_def output_block4_ordered split: prod.splits)


lemma refine_step_error: "fst (refine_step ic iw cw tcm i st) \<le> fst st"
  by (cases st) (simp add: refine_step_def Let_def)

lemma refine_loop_error: "fst (refine_loop ic iw cw tcm i st) \<le> fst st"
proof (induction ic iw cw tcm i st rule: refine_loop.induct)
  case (1 ic iw cw tcm i st)
  show ?case
  proof (cases "i < 256")
    case True
    let ?st' = "refine_step ic iw cw tcm i st"
    have o: "fst ?st' \<le> fst st" by (rule refine_step_error)
    show ?thesis
    proof (cases "int i - int (snd (snd ?st')) > 32")
      case True
      show ?thesis unfolding refine_loop_exit [OF \<open>i < 256\<close> True] by (rule o)
    next
      case False
      show ?thesis unfolding refine_loop_continue [OF \<open>i < 256\<close> False]
        using "1.IH" [OF \<open>i < 256\<close> refl False] o by linarith
    qed
  next
    case False
    then show ?thesis by (simp add: refine_loop_done)
  qed
qed

lemma refine_endpoints_error: "fst (refine_endpoints ic iw cw tcm e out) \<le> e"
  using refine_loop_error [of ic iw cw tcm 0 "(e, out, 0)"]
  by (cases "refine_loop ic iw cw tcm 0 (e, out, 0)") (simp add: refine_endpoints_def)

lemma cluster_fit_ordered_pair:
  "compress_dxt1_cluster_fit i4 i3 ic iw cs ws n cw False tb = (e, blk) \<Longrightarrow> col1 blk \<le> col0 blk"
  using cluster_fit_ordered [of i4 i3 ic iw cs ws n cw tb] by simp

text \<open>
  Claim C5. With \<open>three_color_mode = false\<close> the block written by \<open>compress_dxt1\<close> has
  \<open>col0.u \<ge> col1.u\<close>, for every input and both values of \<open>hq\<close>: on the trivial block, the
  single colour path, the bounding box and least squares blocks, the cluster fit block and
  every block accepted by the end point refinement.
\<close>

theorem four_color_mode_ordered:
  "col1 (snd (compress_dxt1 ind4 ind3 input_colors input_weights color_weights False hq))
     \<le> col0 (snd (compress_dxt1 ind4 ind3 input_colors input_weights color_weights False hq))"
  unfolding compress_dxt1_def
  by (auto simp add: Let_def single_color_ordered output_block4_ordered
        intro!: refine_endpoints_ordered dest: cluster_fit_ordered_pair
        split: prod.splits option.splits)

text \<open>
  Claim C6. For every input the error returned with \<open>hq = true\<close> is at most the error
  returned with \<open>hq = false\<close>: the refinement starts from that error and only ever replaces
  it by a strictly smaller one.
\<close>

theorem hq_error_monotone:
  "fst (compress_dxt1 ind4 ind3 input_colors input_weights color_weights three_color_mode True)
     \<le> fst (compress_dxt1 ind4 ind3 input_colors input_weights color_weights three_color_mode False)"
  unfolding compress_dxt1_def
  by (auto simp add: Let_def refine_endpoints_error split: prod.splits option.splits)

section \<open>Entries of the single colour tables\<close>

lemma opt_candidate_err:
  "opt_candidate expand i mn st mx =
     (if opt_err expand i mn mx < fst st then (opt_err expand i mn mx, mx, mn) else st)"
  by (simp add: opt_candidate_def opt_err_def Let_def)

lemma opt_err_nonneg: "0 \<le> opt_err expand i mn mx"
  by (simp add: opt_err_def)

lemma opt_inner_zero:
  "fst st = 0 \<Longrightarrow> fold (\<lambda>mx st'. opt_candidate expand i mn st' mx) xs st = st"
proof (induction xs arbitrary: st)
  case Nil
  then show ?case by simp
next
  case (Cons x xs)
  have "opt_candidate expand i mn st x = st"
    using Cons.prems opt_err_nonneg [of expand i mn x] by (simp add: opt_candidate_err)
  with Cons show ?case by simp
qed

lemma opt_outer_zero:
  "fst st = 0 \<Longrightarrow>
   fold (\<lambda>mn st. fold (\<lambda>mx st'. opt_candidate expand i mn st' mx) xs st) ys st = st"
  by (induction ys arbitrary: st) (simp_all add: opt_inner_zero)

lemma opt_entry_zero:
  assumes "expand ! 0 = 0" and "0 < sz"
  shows "opt_entry expand sz 0 = (0, 0)"
proof -
  let ?inner = "\<lambda>mn st. fold (\<lambda>mx st'. opt_candidate expand 0 mn st' mx) [0..<sz] st"
  have u: "[0..<sz] = 0 # [1..<sz]" using assms(2) by (simp add: upt_conv_Cons)
  have c: "opt_candidate expand 0 0 (256 * 100, 0, 0) 0 = (0, 0, 0)"
    using assms(1) by (simp add: opt_candidate_def Lerp13_def)
  have "?inner 0 (256 * 100, 0, 0)
      = fold (\<lambda>mx st'. opt_candidate expand 0 0 st' mx) [1..<sz] (0, 0, 0)"
    using c by (subst u) simp
  then have s0: "?inner 0 (256 * 100, 0, 0) = (0, 0, 0)"
    by (simp add: opt_inner_zero)
  have "fold ?inner [0..<sz] (256 * 100, 0, 0) = fold ?inner [1..<sz] (?inner 0 (256 * 100, 0, 0))"
    by (subst u) simp
  also have "\<dots> = (0, 0, 0)"
    unfolding s0 by (rule opt_outer_zero) simp
  finally show ?thesis by (simp add: opt_entry_def)
qed

lemma opt_inner_pos:
  "0 < fst st \<Longrightarrow> \<forall>mx \<in> set xs. 0 < opt_err expand i mn mx \<Longrightarrow>
   0 < fst (fold (\<lambda>mx st'. opt_candidate expand i mn st' mx) xs st)"
  by (induction xs arbitrary: st) (simp_all add: opt_candidate_err)

lemma opt_outer_pos:
  "0 < fst st \<Longrightarrow> \<forall>mn \<in> set ys. \<forall>mx \<in> set xs. 0 < opt_err expand i mn mx \<Longrightarrow>
   0 < fst (fold (\<lambda>mn st. fold (\<lambda>mx st'. opt_candidate expand i mn st' mx) xs st) ys st)"
  by (induction ys arbitrary: st) (simp_all add: opt_inner_pos)

lemma expand5_list:
  "expand5 = [0, 8, 16, 24, 33, 41, 49, 57, 66, 74, 82, 90, 99, 107, 115, 123, 132, 140, 148,
     156, 165, 173, 181, 189, 198, 206, 214, 222, 231, 239, 247, 255]"
  by code_simp

lemma expand5_below: "k < 31 \<Longrightarrow> expand5 ! k < 255"
proof -
  assume k: "k < 31"
  have "\<forall>x \<in> set (take 31 expand5). x < 255" by (simp add: expand5_list)
  moreover have "take 31 expand5 ! k \<in> set (take 31 expand5)"
    using k by (intro nth_mem) (simp add: expand5_list)
  ultimately show ?thesis using k by simp
qed

lemma Lerp13_same: "Lerp13 a a = a"
  by (simp add: Lerp13_def)

lemma opt_err5_pos:
  assumes "mn < 32" "mx < 32" "mn \<noteq> 31 \<or> mx \<noteq> 31"
  shows "0 < opt_err expand5 255 mn mx"
proof (cases "mx = mn")
  case True
  with assms have "mn < 31" by auto
  from expand5_below [OF this] True show ?thesis
    by (simp add: opt_err_def Lerp13_same)
next
  case False
  then have "0 < \<bar>int mx - int mn\<bar> * 3" by simp
  moreover have "0 \<le> \<bar>Lerp13 (int (expand5 ! mx)) (int (expand5 ! mn)) - 255\<bar> * 100" by simp
  ultimately show ?thesis unfolding opt_err_def by linarith
qed

lemma opt_entry5_255: "opt_entry expand5 32 255 = (31, 31)"
proof -
  let ?inner = "\<lambda>mn st. fold (\<lambda>mx st'. opt_candidate expand5 255 mn st' mx) [0..<32] st"
  have u: "[0..<32] = [0..<31] @ [31::nat]"
    using upt_Suc_append [of 0 31] by simp
  let ?s1 = "fold ?inner [0..<31] (256 * 100, 0, 0)"
  have p1: "0 < fst ?s1"
    by (rule opt_outer_pos) (auto intro: opt_err5_pos)
  let ?s2 = "fold (\<lambda>mx st'. opt_candidate expand5 255 31 st' mx) [0..<31] ?s1"
  have p2: "0 < fst ?s2"
    using p1 by (rule opt_inner_pos) (auto intro: opt_err5_pos)
  have e: "opt_err expand5 255 31 31 = 0"
    by (simp add: opt_err_def Lerp13_same expand5_list)
  have "fold ?inner [0..<32] (256 * 100, 0, 0) = ?inner 31 ?s1"
    by (subst u) simp
  also have "\<dots> = opt_candidate expand5 255 31 ?s2 31"
    by (subst u) simp
  also have "\<dots> = (0, 31, 31)"
    using p2 e by (simp add: opt_candidate_err)
  finally show ?thesis by (simp add: opt_entry_def)
qed

lemma s_match5_255: "s_match5 ! 255 = (31, 31)"
  by (simp add: s_match5_def PrepareOptTable_def opt_entry5_255)

lemma s_match5_0: "s_match5 ! 0 = (0, 0)"
  by (simp add: s_match5_def PrepareOptTable_def opt_entry_zero expand5_list)

lemma s_match6_0: "s_match6 ! 0 = (0, 0)"
proof -
  have "expand6 ! 0 = 0" by (simp add: expand6_def upt_conv_Cons)
  then show ?thesis by (simp add: s_match6_def PrepareOptTable_def opt_entry_zero)
qed

section \<open>The solid red block\<close>

lemma upt_16: "[0..<16] = [0, 1, 2, 3, 4, 5, 6, 7, 8, 9, 10, 11, 12, 13, 14, 15]"
  by (simp add: upt_rec)

lemma reduce_red_step0:
  "reduce_step ([], [], False) red_texel 1 = ([vec3 1 0 0], [1], False)"
  by (simp add: reduce_step_def red_texel_def is_black_def vec3_def)

lemma reduce_red_step:
  "reduce_step ([vec3 1 0 0], [w], False) red_texel 1 = ([vec3 1 0 0], [w + 1], False)"
  by (simp add: reduce_step_def red_texel_def is_black_def vec3_def v3_equal_def equal_eps_def)

lemma reduce_red:
  "reduce_colors (replicate 16 red_texel) (replicate 16 1) 16 = (1, [vec3 1 0 0], [16], False)"
  by (simp add: reduce_colors_def upt_16 reduce_red_step0 reduce_red_step)

lemma red_color32: "vector3_to_color32 (vec3 1 0 0) = 0xFFFF0000"
  by (simp add: vector3_to_color32_def vec3_def saturate_def clamp_def max_t_def min_t_def mk_color32_def)

lemma red_bytes: "c32_r 0xFFFF0000 = 255" "c32_g 0xFFFF0000 = 0" "c32_b 0xFFFF0000 = 0"
  by (simp_all add: c32_r_def c32_g_def c32_b_def)

lemma red_single: "compress_dxt1_single_color_optimal 0xFFFF0000
   = \<lparr>col0 = 0xF800, col1 = 0xF800, indices = 0xaaaaaaaa\<rparr>"
  by (simp add: compress_dxt1_single_color_optimal_def single_color_endpoints_def red_bytes
       s_match5_255 s_match5_0 s_match6_0 c16_set_r_def c16_set_g_def c16_set_b_def)

lemma red_palette: "evaluate_palette 0xF800 0xF800 = [0xFF0000, 0xFF0000, 0xFFFF0000, 0]"
  by (simp add: evaluate_palette_def evaluate_palette_d3d10_def evaluate_palette3_d3d10_def
       bitexpand_color16_to_color32_def c32_r_def c32_g_def c32_b_def mk_color32_def)

lemma red_mse_c: "evaluate_mse_c 0xFFFF0000 (vec3 1 0 0) cw = 0"
  by (simp add: evaluate_mse_c_def color_to_vector3_def red_bytes vec3_def v3_sub_def v3_mul_def
       v3_scale_def dot_def)

lemma red_mse:
  "evaluate_mse (replicate 16 red_texel) iw cw \<lparr>col0 = 0xF800, col1 = 0xF800, indices = 0xaaaaaaaa\<rparr> = 0"
  by (simp add: evaluate_mse_def red_palette upt_16 red_texel_def red_mse_c)

text \<open>
  Claim C1, as amended. For 16 texels \<open>(255, 0, 0, 255)\<close> with weights 1 and channel weights
  \<open>(1, 1, 1)\<close>, \<open>compress_dxt1\<close> returns error 0 and the block with both end points
  \<open>0xF800\<close> and the index word \<open>0xAAAAAAAA\<close> (every texel has index 2), whatever
  \<open>three_color_mode\<close> and \<open>hq\<close> are.
\<close>

theorem solid_red_block:
  "compress_dxt1 ind4 ind3 (replicate 16 red_texel) (replicate 16 1) (vec3 1 1 1) three_color_mode hq
     = (0, \<lparr>col0 = 0xF800, col1 = 0xF800, indices = 0xaaaaaaaa\<rparr>)"
  by (simp add: compress_dxt1_def reduce_red red_color32 red_single red_mse)

text \<open>The index word of the solid red block is not zero.\<close>

theorem solid_red_indices_not_zero:
  "snd (compress_dxt1 (vec3 0 0 0, vec3 0 0 0) (vec3 0 0 0, vec3 0 0 0) (replicate 16 red_texel)
          (replicate 16 1) (vec3 1 1 1) False False)
     \<noteq> \<lparr>col0 = 0xF800, col1 = 0xF800, indices = 0\<rparr>"
  by (simp add: compress_dxt1_def reduce_red red_color32 red_single red_mse)

section \<open>Zero weights\<close>

lemma reduce_step_skip: "\<not> wi > 0 \<Longrightarrow> reduce_step st c wi = st"
  by (cases st) (simp add: reduce_step_def)

lemma reduce_fold_skip:
  "\<forall>i<n. \<not> ws ! i > 0 \<Longrightarrow>
   fold (\<lambda>i st. reduce_step st (cs ! i) (ws ! i)) [0..<n] st = st"
  by (induction n) (simp_all add: reduce_step_skip)

text \<open>
  Claim C8. If all 16 input weights are zero, \<open>compress_dxt1\<close> writes the block whose two end
  points and index word are zero and returns the error 0.
\<close>

theorem zero_weights_block:
  assumes "\<forall>i<16. input_weights ! i = 0"
  shows "compress_dxt1 ind4 ind3 input_colors input_weights color_weights three_color_mode hq
           = (0, \<lparr>col0 = 0, col1 = 0, indices = 0\<rparr>)"
proof -
  have "\<forall>i<16. \<not> input_weights ! i > 0" using assms by simp
  then have "reduce_colors input_colors input_weights 16 = (0, [], [], False)"
    by (simp add: reduce_colors_def reduce_fold_skip)
  then show ?thesis by (simp add: compress_dxt1_def)
qed

theorem zero_weights_block_witness:
  "compress_dxt1 (vec3 0 0 0, vec3 0 0 0) (vec3 0 0 0, vec3 0 0 0) (replicate 16 grey_texel)
     (replicate 16 0) (vec3 1 1 1) True True
     = (0, \<lparr>col0 = 0, col1 = 0, indices = 0\<rparr>)"
proof -
  have h: "\<forall>i<16. replicate 16 (0::real) ! i = 0" by simp
  from zero_weights_block [OF h] show ?thesis .
qed

text \<open>
  Claim C2 at the end points \<open>0x0000\<close> and \<open>0xFFFF\<close> (3-colour mode). Entry 2 of the AMD
  palette is \<open>(16, 32, 16)\<close>, the rounded mean of the packed 5 and 6 bit fields, where the
  rounded mean of the expanded 8 bit values is \<open>(128, 128, 128)\<close>; entry 3 is zero.
\<close>

theorem amd_palette3_reads_packed_fields:
  "(0 :: Color16) \<le> 0xFFFF \<and>
   evaluate_palette_amd 0 0xFFFF ! 2 = mk_color32 16 32 16 255 \<and>
   mk_color32 ((int (c32_r (bitexpand_color16_to_color32 0)) + int (c32_r (bitexpand_color16_to_color32 0xFFFF)) + 1) div 2)
              ((int (c32_g (bitexpand_color16_to_color32 0)) + int (c32_g (bitexpand_color16_to_color32 0xFFFF)) + 1) div 2)
              ((int (c32_b (bitexpand_color16_to_color32 0)) + int (c32_b (bitexpand_color16_to_color32 0xFFFF)) + 1) div 2) 255
     = mk_color32 128 128 128 255 \<and>
   mk_color32 16 32 16 255 \<noteq> mk_color32 128 128 128 255 \<and>
   evaluate_palette_amd 0 0xFFFF ! 3 = 0"
  by (simp add: evaluate_palette_amd_def evaluate_palette3_amd_def bitexpand_color16_to_color32_def
       c16_r_def c16_g_def c16_b_def c32_r_def c32_g_def c32_b_def mk_color32_def)

section \<open>The single colour block and the input reducer\<close>

lemma index_word_2_enum: "\<forall>i \<in> set [0..<16]. drop_bit (2 * i) (0xaaaaaaaa :: 32 word) AND 3 = 2"
  by code_simp

lemma index_word_3_enum: "\<forall>i \<in> set [0..<16]. drop_bit (2 * i) (0xffffffff :: 32 word) AND 3 = 3"
  by code_simp

lemma index_word_2: "i < 16 \<Longrightarrow> drop_bit (2 * i) (0xaaaaaaaa :: 32 word) AND 3 = 2"
  using index_word_2_enum by simp

lemma index_word_3: "i < 16 \<Longrightarrow> drop_bit (2 * i) (0xffffffff :: 32 word) AND 3 = 3"
  using index_word_3_enum by simp

text \<open>
  Claim C9. \<open>compress_dxt1_single_color_optimal\<close> always produces a block with
  \<open>col0.u \<ge> col1.u\<close> whose 16 two-bit indices are all equal: when the end points read from
  the tables need no swap they are kept and the index word is \<open>0xaaaaaaaa\<close> (every index
  is 2); otherwise they are swapped and the index word is \<open>0xffffffff\<close> (every index is 3).
\<close>

theorem single_color_block_shape:
  "col1 (compress_dxt1_single_color_optimal c) \<le> col0 (compress_dxt1_single_color_optimal c) \<and>
   (if fst (single_color_endpoints c) < snd (single_color_endpoints c)
    then col0 (compress_dxt1_single_color_optimal c) = snd (single_color_endpoints c) \<and>
         col1 (compress_dxt1_single_color_optimal c) = fst (single_color_endpoints c) \<and>
         indices (compress_dxt1_single_color_optimal c) = 0xffffffff \<and>
         (\<forall>i<16. drop_bit (2 * i) (indices (compress_dxt1_single_color_optimal c)) AND 3 = 3)
    else col0 (compress_dxt1_single_color_optimal c) = fst (single_color_endpoints c) \<and>
         col1 (compress_dxt1_single_color_optimal c) = snd (single_color_endpoints c) \<and>
         indices (compress_dxt1_single_color_optimal c) = 0xaaaaaaaa \<and>
         (\<forall>i<16. drop_bit (2 * i) (indices (compress_dxt1_single_color_optimal c)) AND 3 = 2))"
  by (cases "single_color_endpoints c")
     (auto simp add: compress_dxt1_single_color_optimal_def index_word_2 index_word_3)

theorem single_color_block_shape_witness:
  "col1 (compress_dxt1_single_color_optimal 0xFFFF0000)
     \<le> col0 (compress_dxt1_single_color_optimal 0xFFFF0000)"
  by (rule single_color_block_shape [THEN conjunct1])

lemma reduce_step_cong:
  "xyz c = xyz c' \<Longrightarrow> reduce_step st c wi = reduce_step st c' wi"
  by (cases st) (simp add: reduce_step_def)

lemma reduce_fold_agree:
  assumes "\<forall>i<n. (w1 ! i > 0 \<or> w2 ! i > 0) \<longrightarrow> xyz (c1 ! i) = xyz (c2 ! i) \<and> w1 ! i = w2 ! i"
  shows "fold (\<lambda>i st. reduce_step st (c1 ! i) (w1 ! i)) [0..<n] st
       = fold (\<lambda>i st. reduce_step st (c2 ! i) (w2 ! i)) [0..<n] st"
  using assms
proof (induction n)
  case 0
  then show ?case by simp
next
  case (Suc n)
  let ?s = "fold (\<lambda>i st. reduce_step st (c2 ! i) (w2 ! i)) [0..<n] st"
  have ih: "fold (\<lambda>i st. reduce_step st (c1 ! i) (w1 ! i)) [0..<n] st = ?s"
    using Suc by simp
  have "reduce_step ?s (c1 ! n) (w1 ! n) = reduce_step ?s (c2 ! n) (w2 ! n)"
  proof (cases "w1 ! n > 0 \<or> w2 ! n > 0")
    case True
    with Suc.prems have "xyz (c1 ! n) = xyz (c2 ! n)" "w1 ! n = w2 ! n" by auto
    then show ?thesis using reduce_step_cong [of "c1 ! n" "c2 ! n" ?s "w2 ! n"] by simp
  next
    case False
    then show ?thesis by (simp add: reduce_step_skip)
  qed
  with ih show ?case by simp
qed

lemma reduce_step_any_black:
  "snd (snd (reduce_step st c wi)) = (snd (snd st) \<or> (wi > 0 \<and> is_black (xyz c)))"
  by (cases st) (simp add: reduce_step_def Let_def)

lemma reduce_fold_not_black:
  assumes "\<forall>i<n. is_black (xyz (cs ! i)) \<longrightarrow> \<not> ws ! i > 0"
  shows "\<not> snd (snd (fold (\<lambda>i st. reduce_step st (cs ! i) (ws ! i)) [0..<n] ([], [], False)))"
  using assms
proof (induction n)
  case 0
  then show ?case by simp
next
  case (Suc n)
  let ?s = "fold (\<lambda>i st. reduce_step st (cs ! i) (ws ! i)) [0..<n] ([], [], False)"
  have ih: "\<not> snd (snd ?s)" using Suc by simp
  have "is_black (xyz (cs ! n)) \<longrightarrow> \<not> ws ! n > 0" using Suc.prems by simp
  with ih have "\<not> snd (snd (reduce_step ?s (cs ! n) (ws ! n)))"
    unfolding reduce_step_any_black by blast
  then show ?case by simp
qed

text \<open>
  Claim C10. \<open>reduce_colors\<close> depends only on the texels with a strictly positive weight:
  two blocks that agree (colour and weight) on every texel whose weight is positive in
  either of them give the same count, colours, weights and flag; and when every near-black
  texel has a weight that is not positive, \<open>any_black\<close> is false.
\<close>

theorem reduce_colors_positive_weights_only:
  "((\<forall>i<count. (w1 ! i > 0 \<or> w2 ! i > 0) \<longrightarrow> xyz (c1 ! i) = xyz (c2 ! i) \<and> w1 ! i = w2 ! i)
      \<longrightarrow> reduce_colors c1 w1 count = reduce_colors c2 w2 count) \<and>
   ((\<forall>i<count. is_black (xyz (c1 ! i)) \<longrightarrow> \<not> w1 ! i > 0)
      \<longrightarrow> \<not> snd (snd (snd (reduce_colors c1 w1 count))))"
proof (intro conjI impI)
  assume "\<forall>i<count. (w1 ! i > 0 \<or> w2 ! i > 0) \<longrightarrow> xyz (c1 ! i) = xyz (c2 ! i) \<and> w1 ! i = w2 ! i"
  from reduce_fold_agree [OF this] show "reduce_colors c1 w1 count = reduce_colors c2 w2 count"
    by (simp add: reduce_colors_def)
next
  assume "\<forall>i<count. is_black (xyz (c1 ! i)) \<longrightarrow> \<not> w1 ! i > 0"
  from reduce_fold_not_black [OF this] show "\<not> snd (snd (snd (reduce_colors c1 w1 count)))"
    by (auto simp add: reduce_colors_def split: prod.splits)
qed

theorem reduce_colors_positive_weights_only_witness:
  "reduce_colors (black_texel # replicate 15 red_texel) (0 # replicate 15 1) 16
     = reduce_colors (grey_texel # replicate 15 red_texel) (- 1 # replicate 15 1) 16 \<and>
   \<not> snd (snd (snd (reduce_colors (black_texel # replicate 15 red_texel) (0 # replicate 15 1) 16)))"
proof -
  let ?c1 = "black_texel # replicate 15 red_texel" and ?w1 = "0 # replicate 15 (1::real)"
  let ?c2 = "grey_texel # replicate 15 red_texel" and ?w2 = "- 1 # replicate 15 (1::real)"
  have a: "\<forall>i<16. (?w1 ! i > 0 \<or> ?w2 ! i > 0) \<longrightarrow> xyz (?c1 ! i) = xyz (?c2 ! i) \<and> ?w1 ! i = ?w2 ! i"
    by (simp add: nth_Cons')
  have b: "\<forall>i<16. is_black (xyz (?c1 ! i)) \<longrightarrow> \<not> ?w1 ! i > 0"
    by (simp add: nth_Cons' red_texel_def is_black_def vec3_def)
  note t = reduce_colors_positive_weights_only [of 16 ?w1 ?w2 ?c1 ?c2]
  from t [THEN conjunct1, THEN mp, OF a] t [THEN conjunct2, THEN mp, OF b]
  show ?thesis by (rule conjI)
qed

section \<open>The power iteration\<close>

lemma power_body_spec: "power_body matrix v = spec_power_step signed_max_norm matrix v"
  by (simp add: power_body_def spec_power_step_def sym_mul_def signed_max_norm_def Let_def
        v3_scale_def v3_div_def vec3_def max_t_def max_def divide_inverse)

lemma power_loop_funpow: "i \<le> 8 \<Longrightarrow> power_loop matrix i v = ((power_body matrix) ^^ (8 - i)) v"
proof (induction matrix i v rule: power_loop.induct)
  case (1 matrix i v)
  show ?case
  proof (cases "i < 8")
    case True
    then have "8 - i = Suc (8 - (i + 1))" by simp
    then have "((power_body matrix) ^^ (8 - i)) v = ((power_body matrix) ^^ (8 - (i + 1))) (power_body matrix v)"
      by (simp add: funpow_swap1)
    with True "1.IH" [OF True] show ?thesis
      by (subst power_loop.simps) simp
  next
    case False
    with "1.prems" have "i = 8" by simp
    then show ?thesis by (subst power_loop.simps) simp
  qed
qed

text \<open>
  Claim C3, as amended. \<open>firstEigenVector_PowerMethod\<close> returns the zero vector when the
  three diagonal entries are zero, and otherwise performs exactly 8 iterations from the
  seed, each multiplying the vector by the matrix and dividing it by the largest of its
  three components (the signed maximum, not the maximum of the absolute values).
\<close>

theorem power_method_signed_max:
  "firstEigenVector_PowerMethod matrix = spec_firstEigenVector signed_max_norm matrix"
proof -
  have "power_body matrix = spec_power_step signed_max_norm matrix"
    by (rule ext) (rule power_body_spec)
  then show ?thesis
    by (simp add: firstEigenVector_PowerMethod_def spec_firstEigenVector_def power_loop_funpow)
qed

lemma funpow_8: "(f ^^ 8) v = f (f (f (f (f (f (f (f v)))))))"
  by (simp add: numeral_eq_Suc)

lemma seed_example: "estimatePrincipalComponent cov_example = vec3 (- 7) 0 11"
  by (simp add: estimatePrincipalComponent_def cov_example_def lengthSquared_def dot_def vec3_def Let_def)

lemma code_iterates:
  "power_body cov_example (vec3 (- 7) 0 11) = vec3 (- (14 / 17)) (- (7 / 34)) 1"
  "power_body cov_example (vec3 (- (14 / 17)) (- (7 / 34)) 1) = vec3 (- (35 / 38)) (- (7 / 19)) 1"
  "power_body cov_example (vec3 (- (35 / 38)) (- (7 / 19)) 1) = vec3 (- (217 / 221)) (- (105 / 221)) 1"
  "power_body cov_example (vec3 (- (217 / 221)) (- (105 / 221)) 1) = vec3 (- (161 / 158)) (- (427 / 790)) 1"
  "power_body cov_example (vec3 (- (161 / 158)) (- (427 / 790)) 1) = vec3 (- (994 / 955)) (- (553 / 955)) 1"
  "power_body cov_example (vec3 (- (994 / 955)) (- (553 / 955)) 1) = vec3 (- (6132 / 5821)) (- (3500 / 5821)) 1"
  "power_body cov_example (vec3 (- (6132 / 5821)) (- (3500 / 5821)) 1) = vec3 (- (22687 / 21391)) (- (13132 / 21391)) 1"
  "power_body cov_example (vec3 (- (22687 / 21391)) (- (13132 / 21391)) 1) = vec3 (- (4662 / 4379)) (- (5439 / 8758)) 1"
  by (simp_all add: power_body_def cov_example_def vec3_def v3_scale_def Let_def max_t_def)


lemma spec_iterates:
  "spec_power_step abs_max_norm cov_example (vec3 (- 7) 0 11) = vec3 (- (14 / 17)) (- (7 / 34)) 1"
  "spec_power_step abs_max_norm cov_example (vec3 (- (14 / 17)) (- (7 / 34)) 1) = vec3 (- (35 / 38)) (- (7 / 19)) 1"
  "spec_power_step abs_max_norm cov_example (vec3 (- (35 / 38)) (- (7 / 19)) 1) = vec3 (- (217 / 221)) (- (105 / 221)) 1"
  "spec_power_step abs_max_norm cov_example (vec3 (- (217 / 221)) (- (105 / 221)) 1) = vec3 (- 1) (- (61 / 115)) (158 / 161)"
  "spec_power_step abs_max_norm cov_example (vec3 (- 1) (- (61 / 115)) (158 / 161)) = vec3 (- 1) (- (79 / 142)) (955 / 994)"
  "spec_power_step abs_max_norm cov_example (vec3 (- 1) (- (79 / 142)) (955 / 994)) = vec3 (- 1) (- (125 / 219)) (5821 / 6132)"
  "spec_power_step abs_max_norm cov_example (vec3 (- 1) (- (125 / 219)) (5821 / 6132)) = vec3 (- 1) (- (268 / 463)) (21391 / 22687)"
  "spec_power_step abs_max_norm cov_example (vec3 (- 1) (- (268 / 463)) (21391 / 22687)) = vec3 (- 1) (- (7 / 12)) (4379 / 4662)"
  by (simp_all add: spec_power_step_def sym_mul_def abs_max_norm_def cov_example_def vec3_def v3_div_def)


lemma code_example:
  "firstEigenVector_PowerMethod cov_example = vec3 (- (4662 / 4379)) (- (5439 / 8758)) 1"
proof -
  have "cov_example ! 0 \<noteq> 0" by (simp add: cov_example_def)
  then show ?thesis
    by (simp add: firstEigenVector_PowerMethod_def power_loop_funpow seed_example funpow_8
          code_iterates)
qed

lemma spec_example:
  "spec_firstEigenVector abs_max_norm cov_example = vec3 (- 1) (- (7 / 12)) (4379 / 4662)"
proof -
  have "cov_example ! 0 \<noteq> 0" by (simp add: cov_example_def)
  then show ?thesis
    by (simp add: spec_firstEigenVector_def seed_example funpow_8 spec_iterates)
qed

text \<open>
  On \<open>cov_example\<close> the code and the iteration that divides by the largest absolute value
  return different vectors: the code's result has the component \<open>- 4662 / 4379\<close>.
\<close>

theorem power_method_not_abs_max:
  "firstEigenVector_PowerMethod cov_example \<noteq> spec_firstEigenVector abs_max_norm cov_example"
  by (simp add: code_example spec_example vec3_def)

section \<open>Quantization and bit expansion\<close>

lemma mask_f8: "(0xf8 :: 32 word) = push_bit 3 (mask 5)" by (simp add: mask_eq_exp_minus_1)
lemma mask_fc00: "(0xfc00 :: 32 word) = push_bit 10 (mask 6)" by (simp add: mask_eq_exp_minus_1)
lemma mask_f80000: "(0xf80000 :: 32 word) = push_bit 19 (mask 5)" by (simp add: mask_eq_exp_minus_1)
lemma mask_070007: "(0x070007 :: 32 word) = push_bit 16 (mask 3) OR mask 3" by (simp add: mask_eq_exp_minus_1)
lemma mask_0300: "(0x000300 :: 32 word) = push_bit 8 (mask 2)" by (simp add: mask_eq_exp_minus_1)
lemma mask_255: "(255 :: 32 word) = mask 8" by (simp add: mask_eq_exp_minus_1)
lemma mask_31: "(31 :: 16 word) = mask 5" by (simp add: mask_eq_exp_minus_1)
lemma mask_63: "(63 :: 16 word) = mask 6" by (simp add: mask_eq_exp_minus_1)
lemmas expand_masks = mask_f8 mask_fc00 mask_f80000 mask_070007 mask_0300 mask_255 mask_31 mask_63

lemma bit8_cases: "n < 8 \<Longrightarrow> n \<in> {0, 1, 2, 3, 4, 5, 6, 7 :: nat}" by auto

lemma expand_r_word: "drop_bit 16 (bitexpand_color16_to_color32 c) AND 255
   = push_bit 3 (ucast (drop_bit 11 c AND 31)) OR drop_bit 2 (ucast (drop_bit 11 c AND 31))"
  unfolding bitexpand_color16_to_color32_def Let_def expand_masks
  apply (rule bit_word_eqI)
  subgoal for n
    apply (cases "n < 8")
    subgoal by (drule bit8_cases, elim insertE emptyE) (simp_all add: bit_simps)
    subgoal by (simp add: bit_simps) arith
    done
  done

lemma expand_g_word: "drop_bit 8 (bitexpand_color16_to_color32 c) AND 255
   = push_bit 2 (ucast (drop_bit 5 c AND 63)) OR drop_bit 4 (ucast (drop_bit 5 c AND 63))"
  unfolding bitexpand_color16_to_color32_def Let_def expand_masks
  apply (rule bit_word_eqI)
  subgoal for n
    apply (cases "n < 8")
    subgoal by (drule bit8_cases, elim insertE emptyE) (simp_all add: bit_simps)
    subgoal by (simp add: bit_simps) arith
    done
  done

lemma expand_b_word: "bitexpand_color16_to_color32 c AND 255
   = push_bit 3 (ucast (c AND 31)) OR drop_bit 2 (ucast (c AND 31))"
  unfolding bitexpand_color16_to_color32_def Let_def expand_masks
  apply (rule bit_word_eqI)
  subgoal for n
    apply (cases "n < 8")
    subgoal by (drule bit8_cases, elim insertE emptyE) (simp_all add: bit_simps)
    subgoal by (simp add: bit_simps) arith
    done
  done

lemma replicate5_enum:
  "\<forall>k \<in> set [0..<32]. unat (push_bit 3 (of_nat k :: 32 word) OR drop_bit 2 (of_nat k)) = 8 * k + k div 4"
  by code_simp

lemma replicate6_enum:
  "\<forall>k \<in> set [0..<64]. unat (push_bit 2 (of_nat k :: 32 word) OR drop_bit 4 (of_nat k)) = 4 * k + k div 16"
  by code_simp

lemma c16_r_less: "c16_r c < 32"
proof -
  have "drop_bit 11 c AND 31 \<le> 31" by (rule word_and_le1)
  then show ?thesis unfolding c16_r_def by (simp add: word_le_nat_alt)
qed

lemma c16_g_less: "c16_g c < 64"
proof -
  have "drop_bit 5 c AND 63 \<le> 63" by (rule word_and_le1)
  then show ?thesis unfolding c16_g_def by (simp add: word_le_nat_alt)
qed

lemma c16_b_less: "c16_b c < 32"
proof -
  have "c AND 31 \<le> 31" by (rule word_and_le1)
  then show ?thesis unfolding c16_b_def by (simp add: word_le_nat_alt)
qed

lemma ucast_of_unat: "(ucast (w :: 16 word) :: 32 word) = of_nat (unat w)"
  by simp

lemma expand_r: "c32_r (bitexpand_color16_to_color32 c) = 8 * c16_r c + c16_r c div 4"
proof -
  have "c16_r c \<in> set [0..<32]" using c16_r_less [of c] by simp
  from replicate5_enum [rule_format, OF this] show ?thesis
    unfolding c32_r_def expand_r_word ucast_of_unat c16_r_def .
qed

lemma expand_g: "c32_g (bitexpand_color16_to_color32 c) = 4 * c16_g c + c16_g c div 16"
proof -
  have "c16_g c \<in> set [0..<64]" using c16_g_less [of c] by simp
  from replicate6_enum [rule_format, OF this] show ?thesis
    unfolding c32_g_def expand_g_word ucast_of_unat c16_g_def .
qed

lemma expand_b: "c32_b (bitexpand_color16_to_color32 c) = 8 * c16_b c + c16_b c div 4"
proof -
  have "c16_b c \<in> set [0..<32]" using c16_b_less [of c] by simp
  from replicate5_enum [rule_format, OF this] show ?thesis
    unfolding c32_b_def expand_b_word ucast_of_unat c16_b_def .
qed

text \<open>The fields of a packed colour.\<close>

lemma pack_fields_word:
  fixes R G B :: "32 word"
  defines "u \<equiv> (ucast (push_bit 11 (R AND mask 5) OR push_bit 5 (G AND mask 6) OR (B AND mask 5)) :: 16 word)"
  shows "drop_bit 11 u AND mask 5 = ucast (R AND mask 5)"
    and "drop_bit 5 u AND mask 6 = ucast (G AND mask 6)"
    and "u AND mask 5 = ucast (B AND mask 5)"
  unfolding u_def
  by (rule bit_word_eqI; auto simp add: bit_simps)+

lemma of_nat_mask5: "k < 32 \<Longrightarrow> (of_nat k :: 32 word) AND mask 5 = of_nat k"
  by (simp add: take_bit_of_nat take_bit_nat_eq_self flip: take_bit_eq_mask)

lemma of_nat_mask6: "k < 64 \<Longrightarrow> (of_nat k :: 32 word) AND mask 6 = of_nat k"
  by (simp add: take_bit_of_nat take_bit_nat_eq_self flip: take_bit_eq_mask)

lemma ucast_of_nat_enum5: "\<forall>r \<in> set [0..<32]. unat (ucast (of_nat r :: 32 word) :: 16 word) = r"
  by code_simp

lemma ucast_of_nat_enum6: "\<forall>r \<in> set [0..<64]. unat (ucast (of_nat r :: 32 word) :: 16 word) = r"
  by code_simp

lemma pack_fields:
  assumes "r < 32" "g < 64" "b < 32"
  defines "c \<equiv> (ucast (push_bit 11 (of_nat r) OR push_bit 5 (of_nat g) OR of_nat b :: 32 word) :: 16 word)"
  shows "c16_r c = r" and "c16_g c = g" and "c16_b c = b"
proof -
  have c: "c = ucast (push_bit 11 ((of_nat r :: 32 word) AND mask 5)
                 OR push_bit 5 ((of_nat g :: 32 word) AND mask 6) OR ((of_nat b :: 32 word) AND mask 5))"
    using assms(1-3) by (simp add: c_def of_nat_mask5 of_nat_mask6)
  have m: "r \<in> set [0..<32]" "g \<in> set [0..<64]" "b \<in> set [0..<32]"
    using assms(1-3) by simp_all
  have "drop_bit 11 c AND mask 5 = ucast ((of_nat r :: 32 word) AND mask 5)"
    unfolding c by (rule pack_fields_word(1))
  then have "c16_r c = unat (ucast (of_nat r :: 32 word) :: 16 word)"
    by (simp add: c16_r_def mask_31 of_nat_mask5 [OF assms(1)])
  then show "c16_r c = r"
    using ucast_of_nat_enum5 [rule_format, OF m(1)] by simp
  have "drop_bit 5 c AND mask 6 = ucast ((of_nat g :: 32 word) AND mask 6)"
    unfolding c by (rule pack_fields_word(2))
  then have "c16_g c = unat (ucast (of_nat g :: 32 word) :: 16 word)"
    by (simp add: c16_g_def mask_63 of_nat_mask6 [OF assms(2)])
  then show "c16_g c = g"
    using ucast_of_nat_enum6 [rule_format, OF m(2)] by simp
  have "c AND mask 5 = ucast ((of_nat b :: 32 word) AND mask 5)"
    unfolding c by (rule pack_fields_word(3))
  then have "c16_b c = unat (ucast (of_nat b :: 32 word) :: 16 word)"
    by (simp add: c16_b_def mask_31 of_nat_mask5 [OF assms(3)])
  then show "c16_b c = b"
    using ucast_of_nat_enum5 [rule_format, OF m(3)] by simp
qed

lemma quantize5_enum:
  "\<forall>k \<in> set [0..<32]. quantize_channel midpoints5 31 (real k / 31) = k"
  by code_simp

lemma quantize6_enum:
  "\<forall>k \<in> set [0..<64]. quantize_channel midpoints6 63 (real k / 63) = k"
  by code_simp

lemma replicate5_exact_enum:
  "\<forall>k \<in> set [0..<32]. (31 * (8 * k + k div 4) = 255 * k) = (k = 0 \<or> k = 31)"
  by (simp add: upt_rec)
lemma replicate6_exact_enum:
  "\<forall>k \<in> set [0..<64]. (63 * (4 * k + k div 16) = 255 * k) = (k = 0 \<or> k = 21 \<or> k = 42 \<or> k = 63)"
  by (simp add: upt_rec)

lemma quantize_expand_grid:
  assumes "kr \<le> 31" "kg \<le> 63" "kb \<le> 31"
  shows "c16_r (vector3_to_color16 (vec3 (real kr / 31) (real kg / 63) (real kb / 31))) = kr"
    and "c16_g (vector3_to_color16 (vec3 (real kr / 31) (real kg / 63) (real kb / 31))) = kg"
    and "c16_b (vector3_to_color16 (vec3 (real kr / 31) (real kg / 63) (real kb / 31))) = kb"
    and "color_to_vector3 (bitexpand_color16_to_color32
           (vector3_to_color16 (vec3 (real kr / 31) (real kg / 63) (real kb / 31))))
         = vec3 (real (8 * kr + kr div 4) / 255) (real (4 * kg + kg div 16) / 255)
             (real (8 * kb + kb div 4) / 255)"
proof -
  let ?v = "vec3 (real kr / 31) (real kg / 63) (real kb / 31)"
  have r: "kr \<in> set [0..<32]" and g: "kg \<in> set [0..<64]" and b: "kb \<in> set [0..<32]"
    using assms by simp_all
  have v: "vector3_to_color16 ?v
         = ucast (push_bit 11 (of_nat kr) OR push_bit 5 (of_nat kg) OR of_nat kb :: 32 word)"
    using quantize5_enum [rule_format, OF r] quantize6_enum [rule_format, OF g]
      quantize5_enum [rule_format, OF b]
    by (simp add: vector3_to_color16_def vec3_def)
  have lt: "kr < 32" "kg < 64" "kb < 32" using assms by simp_all
  show f1: "c16_r (vector3_to_color16 ?v) = kr" unfolding v by (rule pack_fields [OF lt])
  show f2: "c16_g (vector3_to_color16 ?v) = kg" unfolding v by (rule pack_fields [OF lt])
  show f3: "c16_b (vector3_to_color16 ?v) = kb" unfolding v by (rule pack_fields [OF lt])
  show "color_to_vector3 (bitexpand_color16_to_color32 (vector3_to_color16 ?v))
         = vec3 (real (8 * kr + kr div 4) / 255) (real (4 * kg + kg div 16) / 255)
             (real (8 * kb + kb div 4) / 255)"
    by (simp only: color_to_vector3_def expand_r expand_g expand_b f1 f2 f3)
qed

lemma replicate5_exact:
  assumes "k \<le> 31"
  shows "(real (8 * k + k div 4) / 255 = real k / 31) = (k = 0 \<or> k = 31)"
proof -
  have k: "k \<in> set [0..<32]" using assms by simp
  have "(real (8 * k + k div 4) / 255 = real k / 31)
       = (real (31 * (8 * k + k div 4)) = real (255 * k))"
    by (simp add: field_simps)
  also have "\<dots> = (31 * (8 * k + k div 4) = 255 * k)"
    by (simp only: of_nat_eq_iff)
  finally have "(real (8 * k + k div 4) / 255 = real k / 31) = (31 * (8 * k + k div 4) = 255 * k)" .
  with replicate5_exact_enum [rule_format, OF k] show ?thesis by simp
qed

lemma replicate6_exact:
  assumes "k \<le> 63"
  shows "(real (4 * k + k div 16) / 255 = real k / 63) = (k = 0 \<or> k = 21 \<or> k = 42 \<or> k = 63)"
proof -
  have k: "k \<in> set [0..<64]" using assms by simp
  have "(real (4 * k + k div 16) / 255 = real k / 63)
       = (real (63 * (4 * k + k div 16)) = real (255 * k))"
    by (simp add: field_simps)
  also have "\<dots> = (63 * (4 * k + k div 16) = 255 * k)"
    by (simp only: of_nat_eq_iff)
  finally have "(real (4 * k + k div 16) / 255 = real k / 63) = (63 * (4 * k + k div 16) = 255 * k)" .
  with replicate6_exact_enum [rule_format, OF k] show ?thesis by simp
qed

text \<open>
  Claim C7, as amended. For \<open>k\<close> from 0 to 31 on the R and B channels and from 0 to 63 on
  the G channel, quantizing the grid value \<open>k / 31\<close> (or \<open>k / 63\<close>) yields the field \<open>k\<close>
  itself, and expanding it yields the bit replicated value over 255: \<open>(8 k + k div 4) / 255\<close>
  for 5 bits, \<open>(4 k + k div 16) / 255\<close> for 6 bits. That value equals the input exactly only
  for \<open>k\<close> in \<open>{0, 31}\<close> on R and B and for \<open>k\<close> in \<open>{0, 21, 42, 63}\<close> on G.
\<close>

theorem quantize_grid_points:
  assumes "kr \<le> 31" "kg \<le> 63" "kb \<le> 31"
  shows "c16_r (vector3_to_color16 (vec3 (real kr / 31) (real kg / 63) (real kb / 31))) = kr \<and>
         c16_g (vector3_to_color16 (vec3 (real kr / 31) (real kg / 63) (real kb / 31))) = kg \<and>
         c16_b (vector3_to_color16 (vec3 (real kr / 31) (real kg / 63) (real kb / 31))) = kb \<and>
         color_to_vector3 (bitexpand_color16_to_color32
             (vector3_to_color16 (vec3 (real kr / 31) (real kg / 63) (real kb / 31))))
           = vec3 (real (8 * kr + kr div 4) / 255) (real (4 * kg + kg div 16) / 255)
               (real (8 * kb + kb div 4) / 255) \<and>
         ((real (8 * kr + kr div 4) / 255 = real kr / 31) = (kr = 0 \<or> kr = 31)) \<and>
         ((real (4 * kg + kg div 16) / 255 = real kg / 63)
            = (kg = 0 \<or> kg = 21 \<or> kg = 42 \<or> kg = 63)) \<and>
         ((real (8 * kb + kb div 4) / 255 = real kb / 31) = (kb = 0 \<or> kb = 31))"
  using quantize_expand_grid [OF assms] replicate5_exact [OF assms(1)] replicate6_exact [OF assms(2)]
    replicate5_exact [OF assms(3)]
  by (intro conjI)

theorem quantize_grid_points_witness:
  "c16_r (vector3_to_color16 (vec3 (1 / 31) (1 / 63) (1 / 31))) = 1 \<and>
   color_to_vector3 (bitexpand_color16_to_color32 (vector3_to_color16 (vec3 (1 / 31) (1 / 63) (1 / 31))))
     = vec3 (8 / 255) (4 / 255) (8 / 255)"
  using quantize_grid_points [of 1 1 1] by simp

text \<open>Quantizing and expanding \<open>1 / 31\<close> on the R channel gives \<open>8 / 255\<close>.\<close>

theorem quantize_expand_not_identity:
  "color_to_vector3 (bitexpand_color16_to_color32 (vector3_to_color16 (vec3 (1 / 31) 0 0)))
     \<noteq> vec3 (1 / 31) 0 0"
  using quantize_expand_grid(4) [of 1 0 0] by (simp add: vec3_def)

end
